theory Spec2Isabelle
  imports Main "HOL-Library.Word" "HOL-Library.Log_Nat"
begin

section \<open>Go values used by the package detector\<close>

text \<open>
  The program is a single Go file \<^verbatim>\<open>main.go\<close>; several revisions of it are kept in the
  repository. The revision embedded here is the one with the e-mail and web-hook channels
  (package-level variables \<^verbatim>\<open>config\<close>, \<^verbatim>\<open>r\<close>, \<^verbatim>\<open>buf\<close>, \<^verbatim>\<open>lastNotificationSent\<close>),
  together with the free function \<^verbatim>\<open>isAwake(now, sleepHour, wakeHour)\<close> of the oldest
  revision.

  Go's \<^verbatim>\<open>int\<close> fields of the configuration are read from YAML and only compared, so they
  are \<^typ>\<open>int\<close>; the one place where machine arithmetic happens on them, the product
  \<^verbatim>\<open>time.Duration(n) * time.Minute\<close>, is a 64-bit word multiplication that wraps.
\<close>

type_synonym bytes = "8 word list"
type_synonym error = string

subsection \<open>float64\<close>

text \<open>
  A \<^verbatim>\<open>float64\<close> is an IEEE 754 binary64 value. Finite values are the rationals they
  denote (the sign of zero is not kept: no comparison distinguishes it). Arithmetic rounds
  the exact result to the nearest representable value, ties to even: 53 significant bits
  above \<open>2\<^sup>-\<^sup>1\<^sup>0\<^sup>2\<^sup>2\<close>, multiples of \<open>2\<^sup>-\<^sup>1\<^sup>0\<^sup>7\<^sup>4\<close> below, and infinity once the
  rounded value reaches \<open>2\<^sup>1\<^sup>0\<^sup>2\<^sup>4\<close>.
\<close>

datatype float64 = Finite rat | PosInf | NegInf | NaN

definition pow2 :: "int \<Rightarrow> rat" where
  "pow2 k = (if 0 \<le> k then 2 ^ nat k else 1 / 2 ^ nat (- k))"

text \<open>\<open>\<lfloor>log\<^sub>2 x\<rfloor>\<close> of a positive rational, from the bit lengths of numerator and denominator.\<close>

definition ilog2 :: "rat \<Rightarrow> int" where
  "ilog2 x = (case quotient_of x of (a, b) \<Rightarrow>
     let d = bitlen a - bitlen b in if pow2 d \<le> x then d else d - 1)"

definition round_half_even :: "rat \<Rightarrow> int" where
  "round_half_even x = (let f = \<lfloor>x\<rfloor>; d = x - of_int f in
     if d < 1 / 2 then f else if 1 / 2 < d then f + 1 else if even f then f else f + 1)"

definition float64_round :: "rat \<Rightarrow> float64" where
  "float64_round x =
     (if x = 0 then Finite 0
      else let e = max (ilog2 \<bar>x\<bar>) (- 1022);
               n = round_half_even (x / pow2 (e - 52))
           in if 1023 < e \<or> (e = 1023 \<and> 9007199254740992 \<le> \<bar>n\<bar>)
              then (if 0 < x then PosInf else NegInf)
              else Finite (of_int n * pow2 (e - 52)))"

text \<open>The conversion \<^verbatim>\<open>float64(n)\<close> of an integer.\<close>

definition float64_of_int :: "int \<Rightarrow> float64" where
  "float64_of_int n = float64_round (of_int n)"

text \<open>The operator \<^verbatim>\<open>*\<close> on \<^verbatim>\<open>float64\<close>.\<close>

fun float64_mul :: "float64 \<Rightarrow> float64 \<Rightarrow> float64" where
  "float64_mul (Finite a) (Finite b) = float64_round (a * b)"
| "float64_mul NaN _ = NaN"
| "float64_mul _ NaN = NaN"
| "float64_mul (Finite a) PosInf = (if a = 0 then NaN else if 0 < a then PosInf else NegInf)"
| "float64_mul (Finite a) NegInf = (if a = 0 then NaN else if 0 < a then NegInf else PosInf)"
| "float64_mul PosInf (Finite b) = (if b = 0 then NaN else if 0 < b then PosInf else NegInf)"
| "float64_mul NegInf (Finite b) = (if b = 0 then NaN else if 0 < b then NegInf else PosInf)"
| "float64_mul PosInf PosInf = PosInf"
| "float64_mul PosInf NegInf = NegInf"
| "float64_mul NegInf PosInf = NegInf"
| "float64_mul NegInf NegInf = PosInf"

text \<open>The operator \<^verbatim>\<open>>\<close> on \<^verbatim>\<open>float64\<close>: false whenever an operand is NaN.\<close>

fun float64_gt :: "float64 \<Rightarrow> float64 \<Rightarrow> bool" where
  "float64_gt (Finite a) (Finite b) = (b < a)"
| "float64_gt NaN _ = False"
| "float64_gt _ NaN = False"
| "float64_gt PosInf PosInf = False"
| "float64_gt PosInf _ = True"
| "float64_gt NegInf _ = False"
| "float64_gt (Finite a) PosInf = False"
| "float64_gt (Finite a) NegInf = True"

subsection \<open>time.Time and time.Duration\<close>

text \<open>
  A \<^verbatim>\<open>time.Time\<close> is an instant, counted in nanoseconds from the zero Time
  (January 1, year 1, 00:00:00 UTC), with the offset in seconds east of UTC that its
  location has at that instant. All instants lie on one time line: \<^verbatim>\<open>After\<close> compares
  them. A \<^verbatim>\<open>time.Duration\<close> is an \<^verbatim>\<open>int64\<close> count of nanoseconds.
\<close>

record Time =
  instant :: int
  zoneOffset :: int

type_synonym Duration = "64 word"

definition zeroTime :: Time where
  "zeroTime = \<lparr>instant = 0, zoneOffset = 0\<rparr>"

definition Minute :: Duration where
  "Minute = 60000000000"

definition Time_Add :: "Time \<Rightarrow> Duration \<Rightarrow> Time" where
  "Time_Add t d = t\<lparr>instant := instant t + sint d\<rparr>"

definition Time_After :: "Time \<Rightarrow> Time \<Rightarrow> bool" where
  "Time_After t u = (instant u < instant t)"

definition Time_Hour :: "Time \<Rightarrow> int" where
  "Time_Hour t = ((instant t div 1000000000 + zoneOffset t) mod 86400) div 3600"

text \<open>The instant of the Unix epoch, before which no system clock reads.\<close>

definition unixEpoch :: int where
  "unixEpoch = 62135596800 * 1000000000"

subsection \<open>image.Rectangle\<close>

record Rectangle =
  Min_X :: int
  Min_Y :: int
  Max_X :: int
  Max_Y :: int

definition image_Rect :: "int \<Rightarrow> int \<Rightarrow> int \<Rightarrow> int \<Rightarrow> Rectangle" where
  "image_Rect x0 y0 x1 y1 =
     \<lparr>Min_X = min x0 x1, Min_Y = min y0 y1, Max_X = max x0 x1, Max_Y = max y0 y1\<rparr>"

section \<open>Configuration\<close>

record runCfg =
  Interval :: int
  SleepHour :: int
  WakeHour :: int
  NotifyOnStart :: bool
  NotifyMuteMinutes :: int

record rectCfg =
  X1 :: int
  Y1 :: int
  X2 :: int
  Y2 :: int

record imageCfg =
  Image_URL :: string
  CacheFile :: string
  ArchivePath :: string
  Rect :: rectCfg

record motionCfg =
  LogPath :: string
  CameraID :: string

record visionCfg =
  AuthFile :: string
  Vision_URL :: string
  PackageLabel :: string
  Threshold :: int

record emailCfg =
  From :: string
  To :: "string list"
  Server :: string
  Port :: int
  User :: string
  Pass :: string

record webhookCfg =
  WebHook_URL :: string

record configuration =
  Run :: runCfg
  Motion :: motionCfg
  Image_cfg :: imageCfg
  Vision :: visionCfg
  Email :: emailCfg
  WebHook :: webhookCfg

section \<open>Schedule policy\<close>

text \<open>\<^verbatim>\<open>func isAwake(now time.Time, sleepHour int, wakeHour int) bool\<close>\<close>

definition isAwake :: "Time \<Rightarrow> int \<Rightarrow> int \<Rightarrow> bool" where
  "isAwake now sleepHour wakeHour =
     (let hour = Time_Hour now in
      if sleepHour > wakeHour \<and> (hour < sleepHour \<and> hour \<ge> wakeHour) then True
      else if sleepHour < wakeHour \<and> (hour < sleepHour \<or> hour \<ge> wakeHour) then True
      else if sleepHour = wakeHour then True
      else False)"

text \<open>\<^verbatim>\<open>func (i imageCfg) isCropSpecified() bool\<close>\<close>

definition isCropSpecified :: "imageCfg \<Rightarrow> bool" where
  "isCropSpecified i =
     (X1 (Rect i) > 0 \<or> Y1 (Rect i) > 0 \<or> X2 (Rect i) > 0 \<or> Y2 (Rect i) > 0)"

section \<open>Messages, effects and the package-level variables\<close>

text \<open>One element of \<^verbatim>\<open>visionResponse.Payload\<close>, and the web-hook's JSON body.\<close>

record payload =
  Score :: float64
  DisplayName :: string

type_synonym visionResponse = "payload list"

record webHookBody =
  wh_Score :: float64
  wh_Label :: string
  wh_Image :: string

record request =
  req_Method :: string
  req_URL :: string
  req_Header :: "(string \<times> string) list"
  req_Body :: bytes

record response =
  Status :: string
  resp_Body :: bytes

text \<open>A \<^verbatim>\<open>gomail\<close> message (each header holds the values of its last \<^verbatim>\<open>SetHeader\<close>) and dialer.\<close>

record message =
  hdr_From :: "string list"
  hdr_To :: "string list"
  hdr_Subject :: "string list"
  msg_Body :: "string \<times> string"
  msg_Embed :: "string list"

record dialer =
  Host :: string
  dial_Port :: int
  Username :: string
  Password :: string

text \<open>The lines written through package \<^verbatim>\<open>log\<close>, one constructor for each call site.\<close>

datatype logline =
    Log_TokenError error string
  | Log_FetchError error
  | Log_CropFailed error
  | Log_EvalError error
  | Log_Result string float64 int
  | Log_Err error
  | Log_MarshalError
  | Log_RequestError error
  | Log_Posted string
  | Log_Fatal string

text \<open>
  What a run does, in order: the entry into each function of the pipeline and of the
  dispatcher, the calls that leave the process, and the assignments to
  \<^verbatim>\<open>lastNotificationSent\<close>.
\<close>

datatype event =
    Call_getGoogleToken
  | Call_fetchImage
  | Call_cropImage Rectangle
  | Call_evaluateImageJSON string
  | Call_emailResult string string
  | Call_sendWebHook float64 string bytes
  | Exec_gcloud string
  | Http_Get string
  | Http_Do request
  | Smtp_DialAndSend dialer message
  | WriteFile string bytes
  | Println logline
  | Assign_lastNotificationSent Time

text \<open>
  The package-level variables. \<open>trace\<close> and \<open>steps\<close> are not in the source: \<open>trace\<close>
  collects the events so far, \<open>steps\<close> counts the calls answered by the environment, so
  that the environment may answer each call differently.
\<close>

record globals =
  config :: configuration
  var_r :: Rectangle
  buf :: bytes
  lastNotificationSent :: Time
  trace :: "event list"
  steps :: nat

text \<open>
  The collaborators and library calls, as functions. Those whose answer depends on the
  moment of the call take the step count first (\<^verbatim>\<open>os.Stat\<close> is asked once, before the
  first cycle). \<open>'img\<close> is the decoded image.
\<close>

record 'img env =
  time_Now :: "nat \<Rightarrow> Time"
  exec_CombinedOutput :: "nat \<Rightarrow> string \<Rightarrow> string \<times> error option"
  strings_TrimSpace :: "string \<Rightarrow> string"
  http_Get :: "nat \<Rightarrow> string \<Rightarrow> error + bytes \<times> error option"
  image_Decode :: "bytes \<Rightarrow> (error + 'img) \<times> bytes"
  draw_SubImage :: "'img \<Rightarrow> Rectangle \<Rightarrow> 'img"
  jpeg_Encode :: "'img \<Rightarrow> bytes \<times> error option"
  base64_EncodeToString :: "bytes \<Rightarrow> string"
  json_Marshal_visionRequest :: "string \<Rightarrow> error + bytes"
  json_Marshal_webHookBody :: "webHookBody \<Rightarrow> error + bytes"
  json_Unmarshal_visionResponse :: "bytes \<Rightarrow> error + visionResponse"
  http_NewRequest :: "string \<Rightarrow> string \<Rightarrow> error option"
  client_Do :: "nat \<Rightarrow> request \<Rightarrow> error + response"
  time_Format_RFC3339 :: "Time \<Rightarrow> string"
  path_Join :: "string \<Rightarrow> string \<Rightarrow> string"
  smtp_DialAndSend :: "nat \<Rightarrow> dialer \<Rightarrow> message \<Rightarrow> error option"
  os_Stat_IsNotExist :: "string \<Rightarrow> bool"

text \<open>
  How a call ends: it returns, it panics (the process dies with the variables as they
  are), or it leaves through \<^verbatim>\<open>log.Fatal\<close>.
\<close>

datatype outcome = Returned globals | Panicked error globals | Exited globals

fun state_of :: "outcome \<Rightarrow> globals" where
  "state_of (Returned g) = g"
| "state_of (Panicked e g) = g"
| "state_of (Exited g) = g"

fun andThen :: "outcome \<Rightarrow> (globals \<Rightarrow> outcome) \<Rightarrow> outcome" where
  "andThen (Returned g) k = k g"
| "andThen (Panicked e g) k = Panicked e g"
| "andThen (Exited g) k = Exited g"

definition emit :: "event \<Rightarrow> globals \<Rightarrow> globals" where
  "emit e g = g\<lparr>trace := trace g @ [e]\<rparr>"

definition tick :: "globals \<Rightarrow> globals" where
  "tick g = g\<lparr>steps := Suc (steps g)\<rparr>"

definition log_Println :: "logline \<Rightarrow> globals \<Rightarrow> globals" where
  "log_Println l g = emit (Println l) g"

text \<open>\<^verbatim>\<open>time.Now()\<close>\<close>

definition Now :: "'img env \<Rightarrow> globals \<Rightarrow> Time \<times> globals" where
  "Now w g = (time_Now w (steps g), tick g)"

text \<open>\<^verbatim>\<open>func (r runCfg) isAwake() bool\<close>, which reads the clock itself.\<close>

definition runCfg_isAwake :: "'img env \<Rightarrow> runCfg \<Rightarrow> globals \<Rightarrow> bool \<times> globals" where
  "runCfg_isAwake w r g =
     (let (now, g1) = Now w g;
          hour = Time_Hour now
      in (if SleepHour r > WakeHour r \<and> (hour < SleepHour r \<and> hour \<ge> WakeHour r) then True
          else if SleepHour r < WakeHour r \<and> (hour < SleepHour r \<or> hour \<ge> WakeHour r) then True
          else if SleepHour r = WakeHour r then True
          else False, g1))"

section \<open>Initialisation\<close>

text \<open>
  The \<^verbatim>\<open>initialize\<close> methods have value receivers: each works on a copy of the section
  of the configuration it is called on. \<open>i1\<close> and \<open>e1\<close> below are those copies after the
  assignments of the body; only package-level variables outlive the call.
\<close>

definition imageCfg_initialize :: "'img env \<Rightarrow> imageCfg \<Rightarrow> globals \<Rightarrow> outcome" where
  "imageCfg_initialize w i g =
     (let i1 = (if CacheFile i = '''' then i\<lparr>CacheFile := ''./img.jpg''\<rparr> else i) in
      if ArchivePath i1 \<noteq> '''' \<and> os_Stat_IsNotExist w (ArchivePath i1)
      then Exited (log_Println
             (Log_Fatal (''The specified ArchivePath does not exist. '' @ ArchivePath i1)) g)
      else if Image_URL i1 = ''''
      then Exited (log_Println
             (Log_Fatal ''Please specify a valid imageURL in the configuration file.'') g)
      else if isCropSpecified i1
      then Returned (g\<lparr>var_r := image_Rect (X1 (Rect i1)) (Y1 (Rect i1))
                                        (X2 (Rect i1)) (Y2 (Rect i1))\<rparr>)
      else Returned g)"

definition visionCfg_initialize :: "visionCfg \<Rightarrow> globals \<Rightarrow> outcome" where
  "visionCfg_initialize v g =
     (if AuthFile (Vision (config g)) = '''' \<or> Vision_URL (Vision (config g)) = ''''
      then Exited (log_Println (Log_Fatal
             ''Configuration must contain values for vision: authfile and vision: url'') g)
      else Returned g)"

definition emailCfg_initialize :: "emailCfg \<Rightarrow> globals \<Rightarrow> outcome" where
  "emailCfg_initialize e g =
     (let e1 = (if Port e = 0 then e\<lparr>Port := 587\<rparr> else e) in Returned g)"

definition webhookCfg_initialize :: "webhookCfg \<Rightarrow> globals \<Rightarrow> outcome" where
  "webhookCfg_initialize w g = Returned g"

text \<open>The four calls of \<^verbatim>\<open>main\<close> between loading the file and the first cycle.\<close>

definition main_initialize :: "'img env \<Rightarrow> globals \<Rightarrow> outcome" where
  "main_initialize w g =
     andThen (imageCfg_initialize w (Image_cfg (config g)) g) (\<lambda>g1.
     andThen (visionCfg_initialize (Vision (config g1)) g1) (\<lambda>g2.
     andThen (emailCfg_initialize (Email (config g2)) g2) (\<lambda>g3.
     webhookCfg_initialize (WebHook (config g3)) g3)))"

section \<open>Detection pipeline\<close>

text \<open>\<^verbatim>\<open>func getGoogleToken() (string, error)\<close>\<close>

definition getGoogleToken :: "'img env \<Rightarrow> globals \<Rightarrow> (string \<times> error option) \<times> globals" where
  "getGoogleToken w g =
     (let g1 = emit Call_getGoogleToken g;
          authFile = AuthFile (Vision (config g1));
          g2 = tick (emit (Exec_gcloud authFile) g1)
      in case exec_CombinedOutput w (steps g1) authFile of
           (out, Some err) \<Rightarrow> ((out, Some err), g2)
         | (out, None) \<Rightarrow> ((strings_TrimSpace w out, None), g2))"

text \<open>
  \<^verbatim>\<open>func fetchImage() error\<close>. The environment answers the GET with an error, or with the
  bytes that \<^verbatim>\<open>io.Copy\<close> moved into \<^verbatim>\<open>buf\<close> and the error of the copy, if any.
\<close>

definition fetchImage :: "'img env \<Rightarrow> globals \<Rightarrow> error option \<times> globals" where
  "fetchImage w g =
     (let g1 = emit Call_fetchImage g;
          url = Image_URL (Image_cfg (config g1));
          g2 = g1\<lparr>buf := []\<rparr>;
          g3 = tick (emit (Http_Get url) g2)
      in case http_Get w (steps g2) url of
           Inl err \<Rightarrow> (Some err, g3)
         | Inr (body, err) \<Rightarrow> (err, g3\<lparr>buf := buf g3 @ body\<rparr>))"

text \<open>
  \<^verbatim>\<open>func cropImage(r image.Rectangle) error\<close>. Decoding reads from \<^verbatim>\<open>buf\<close> and leaves
  there what it did not read.
\<close>

definition cropImage :: "'img env \<Rightarrow> Rectangle \<Rightarrow> globals \<Rightarrow> error option \<times> globals" where
  "cropImage w r g =
     (let g1 = emit (Call_cropImage r) g in
      case image_Decode w (buf g1) of
        (Inl err, rest) \<Rightarrow> (Some err, g1\<lparr>buf := rest\<rparr>)
      | (Inr srcimg, rest) \<Rightarrow>
          (let newimg = draw_SubImage w srcimg r;
               (out, err) = jpeg_Encode w newimg
           in (err, g1\<lparr>buf := out\<rparr>)))"

text \<open>\<^verbatim>\<open>func evaluateImageJSON(token string) (visionResponse, error)\<close>\<close>

definition evaluateImageJSON ::
  "'img env \<Rightarrow> string \<Rightarrow> globals \<Rightarrow> (error + visionResponse) \<times> globals" where
  "evaluateImageJSON w token g =
     (let g1 = emit (Call_evaluateImageJSON token) g;
          b = buf g1
      in case json_Marshal_visionRequest w (base64_EncodeToString w b) of
           Inl err \<Rightarrow> (Inl err, g1)
         | Inr reqBytes \<Rightarrow>
             (case http_NewRequest w ''POST'' (Vision_URL (Vision (config g1))) of
                Some err \<Rightarrow> (Inl err, g1)
              | None \<Rightarrow>
                  (let req = \<lparr>req_Method = ''POST'',
                              req_URL = Vision_URL (Vision (config g1)),
                              req_Header = [(''Content-Type'', ''application/json''),
                                            (''Authorization'', ''Bearer '' @ token)],
                              req_Body = reqBytes\<rparr>;
                       g2 = tick (emit (Http_Do req) g1)
                   in case client_Do w (steps g1) req of
                        Inl err \<Rightarrow> (Inl err, g2)
                      | Inr resp \<Rightarrow>
                          (case json_Unmarshal_visionResponse w (resp_Body resp) of
                             Inl err \<Rightarrow> (Inl err, g2)
                           | Inr response \<Rightarrow>
                               (let g3 = emit (WriteFile (CacheFile (Image_cfg (config g2))) b) g2
                                in if ArchivePath (Image_cfg (config g3)) \<noteq> ''''
                                   then (let (now, g4) = Now w g3
                                         in (Inr response,
                                             emit (WriteFile
                                                    (path_Join w (ArchivePath (Image_cfg (config g4)))
                                                       (time_Format_RFC3339 w now @ ''.jpeg'')) b) g4))
                                   else (Inr response, g3))))))"

section \<open>Notification dispatcher\<close>

text \<open>\<^verbatim>\<open>func emailResult(subject string, body string)\<close>\<close>

definition emailResult :: "'img env \<Rightarrow> string \<Rightarrow> string \<Rightarrow> globals \<Rightarrow> globals" where
  "emailResult w subject body g =
     (let g1 = emit (Call_emailResult subject body) g;
          e = Email (config g1);
          m = \<lparr>hdr_From = [From e],
               hdr_To = foldl (\<lambda>h to. [to]) [] (To e),
               hdr_Subject = [subject],
               msg_Body = (''text/html'', body),
               msg_Embed = [CacheFile (Image_cfg (config g1))]\<rparr>;
          d = \<lparr>Host = Server e, dial_Port = Port e, Username = User e, Password = Pass e\<rparr>;
          g2 = tick (emit (Smtp_DialAndSend d m) g1)
      in case smtp_DialAndSend w (steps g1) d m of
           Some err \<Rightarrow> log_Println (Log_Err err) g2
         | None \<Rightarrow> g2)"

text \<open>\<^verbatim>\<open>func sendWebHook(score float64, label string, image []byte)\<close>\<close>

definition sendWebHook :: "'img env \<Rightarrow> float64 \<Rightarrow> string \<Rightarrow> bytes \<Rightarrow> globals \<Rightarrow> outcome" where
  "sendWebHook w score label img g =
     (let g1 = emit (Call_sendWebHook score label img) g;
          bodyStruct = \<lparr>wh_Score = score, wh_Label = label,
                        wh_Image = base64_EncodeToString w img\<rparr>
      in case json_Marshal_webHookBody w bodyStruct of
           Inl err \<Rightarrow> Returned (log_Println Log_MarshalError g1)
         | Inr postBody \<Rightarrow>
             (case http_NewRequest w ''POST'' (WebHook_URL (WebHook (config g1))) of
                Some err \<Rightarrow> Returned (log_Println (Log_RequestError err) g1)
              | None \<Rightarrow>
                  (let req = \<lparr>req_Method = ''POST'',
                              req_URL = WebHook_URL (WebHook (config g1)),
                              req_Header = [(''Content-Type'', ''application/json'')],
                              req_Body = postBody\<rparr>;
                       g2 = tick (emit (Http_Do req) g1)
                   in case client_Do w (steps g1) req of
                        Inl err \<Rightarrow> Panicked err g2
                      | Inr resp \<Rightarrow> Returned (log_Println (Log_Posted (Status resp)) g2))))"

section \<open>Notification decision\<close>

text \<open>The test of the loop body of \<^verbatim>\<open>processImage\<close> on one result \<open>p\<close>.\<close>

definition matched :: "configuration \<Rightarrow> payload \<Rightarrow> bool" where
  "matched c p =
     (DisplayName p = PackageLabel (Vision c) \<and>
      float64_gt (float64_mul (Score p) (Finite 100)) (float64_of_int (Threshold (Vision c))))"

text \<open>The two fan-outs of the loop body: every enabled channel in turn.\<close>

definition notifyDetected :: "'img env \<Rightarrow> payload \<Rightarrow> globals \<Rightarrow> outcome" where
  "notifyDetected w p g =
     (let g1 = (if Server (Email (config g)) \<noteq> ''''
                then emailResult w ''Package Received!'' ''A new package delivery was detected.'' g
                else g)
      in if WebHook_URL (WebHook (config g1)) \<noteq> ''''
         then sendWebHook w (Score p) (DisplayName p) (buf g1) g1
         else Returned g1)"

definition notifyForced :: "'img env \<Rightarrow> payload \<Rightarrow> globals \<Rightarrow> outcome" where
  "notifyForced w p g =
     (let g1 = (if Server (Email (config g)) \<noteq> ''''
                then emailResult w ''Package Monitor Restarted.''
                       ''The Package Monitor server has restarted successfully.'' g
                else g)
      in if WebHook_URL (WebHook (config g1)) \<noteq> ''''
         then sendWebHook w (Score p) (DisplayName p) (buf g1) g1
         else Returned g1)"

text \<open>The body of \<^verbatim>\<open>for _, p := range resp.Payload\<close>.\<close>

definition processImage_body :: "'img env \<Rightarrow> bool \<Rightarrow> payload \<Rightarrow> globals \<Rightarrow> outcome" where
  "processImage_body w forceNotify p g0 =
     (let g = log_Println (Log_Result (DisplayName p) (Score p)
                            (Threshold (Vision (config g0)))) g0
      in if matched (config g) p
         then (let (now, g1) = Now w g
               in if Time_After now
                       (Time_Add (lastNotificationSent g1)
                          (word_of_int (NotifyMuteMinutes (Run (config g1))) * Minute))
                  then (let (now2, g2) = Now w g1
                        in notifyDetected w p
                             (emit (Assign_lastNotificationSent now2)
                                (g2\<lparr>lastNotificationSent := now2\<rparr>)))
                  else Returned g1)
         else if forceNotify then notifyForced w p g
         else Returned g)"

fun processImage_loop :: "'img env \<Rightarrow> bool \<Rightarrow> payload list \<Rightarrow> globals \<Rightarrow> outcome" where
  "processImage_loop w forceNotify [] g = Returned g"
| "processImage_loop w forceNotify (p # ps) g =
     andThen (processImage_body w forceNotify p g) (processImage_loop w forceNotify ps)"

text \<open>
  The four steps of \<^verbatim>\<open>processImage\<close> before the loop: \<open>Inl\<close> is the return after a logged
  failure, \<open>Inr\<close> carries the response into the loop.
\<close>

definition processImage_steps :: "'img env \<Rightarrow> globals \<Rightarrow> globals + visionResponse \<times> globals" where
  "processImage_steps w g =
     (case getGoogleToken w g of
        ((token, Some err), g1) \<Rightarrow> Inl (log_Println (Log_TokenError err token) g1)
      | ((token, None), g1) \<Rightarrow>
          (case fetchImage w g1 of
             (Some err, g2) \<Rightarrow> Inl (log_Println (Log_FetchError err) g2)
           | (None, g2) \<Rightarrow>
               (case (if isCropSpecified (Image_cfg (config g2))
                      then cropImage w (var_r g2) g2 else (None, g2)) of
                  (Some err, g3) \<Rightarrow> Inl (log_Println (Log_CropFailed err) g3)
                | (None, g3) \<Rightarrow>
                    (case evaluateImageJSON w token g3 of
                       (Inl err, g4) \<Rightarrow> Inl (log_Println (Log_EvalError err) g4)
                     | (Inr resp, g4) \<Rightarrow> Inr (resp, g4)))))"

text \<open>\<^verbatim>\<open>func processImage(ctx context.Context, forceNotify bool)\<close>\<close>

definition processImage :: "'img env \<Rightarrow> bool \<Rightarrow> globals \<Rightarrow> outcome" where
  "processImage w forceNotify g =
     (case processImage_steps w g of
        Inl g' \<Rightarrow> Returned g'
      | Inr (resp, g') \<Rightarrow> processImage_loop w forceNotify resp g')"

text \<open>
  \<^verbatim>\<open>main\<close> from the initialisation to the first cycle,
  \<^verbatim>\<open>processImage(ctx, config.Run.NotifyOnStart)\<close>.
\<close>

definition main_startup :: "'img env \<Rightarrow> globals \<Rightarrow> outcome" where
  "main_startup w g =
     andThen (main_initialize w g)
       (\<lambda>g1. processImage w (NotifyOnStart (Run (config g1))) g1)"

section \<open>Reading a trace\<close>

text \<open>The entries into functions of the pipeline and of the dispatcher.\<close>

fun is_call :: "event \<Rightarrow> bool" where
  "is_call Call_getGoogleToken = True"
| "is_call Call_fetchImage = True"
| "is_call (Call_cropImage r) = True"
| "is_call (Call_evaluateImageJSON t) = True"
| "is_call (Call_emailResult s b) = True"
| "is_call (Call_sendWebHook s l i) = True"
| "is_call _ = False"

definition calls :: "globals \<Rightarrow> event list" where
  "calls g = filter is_call (trace g)"

text \<open>The calls and sends of the dispatcher.\<close>

fun is_dispatch :: "event \<Rightarrow> bool" where
  "is_dispatch (Call_emailResult s b) = True"
| "is_dispatch (Call_sendWebHook s l i) = True"
| "is_dispatch (Smtp_DialAndSend d m) = True"
| "is_dispatch _ = False"

text \<open>The lines logged so far.\<close>

fun log_line :: "event \<Rightarrow> logline option" where
  "log_line (Println l) = Some l"
| "log_line _ = None"

definition logged :: "globals \<Rightarrow> logline list" where
  "logged g = List.map_filter log_line (trace g)"

text \<open>
  The assignments to \<^verbatim>\<open>lastNotificationSent\<close>: the value an event writes, the writes
  and the calls of a run in their order, and the value the variable holds after the events
  \<open>es\<close> when it held \<open>t\<close> before them.
\<close>

fun assigned :: "event \<Rightarrow> Time option" where
  "assigned (Assign_lastNotificationSent t) = Some t"
| "assigned _ = None"

definition writes_and_calls :: "globals \<Rightarrow> event list" where
  "writes_and_calls g = filter (\<lambda>e. is_call e \<or> assigned e \<noteq> None) (trace g)"


text \<open>The two messages of the dispatcher: a detection, and the restart forced at start-up.\<close>

definition detectedEmail :: event where
  "detectedEmail = Call_emailResult ''Package Received!'' ''A new package delivery was detected.''"

definition restartEmail :: event where
  "restartEmail = Call_emailResult ''Package Monitor Restarted.''
                    ''The Package Monitor server has restarted successfully.''"

text \<open>The calls of one fan-out with e-mail \<open>e\<close>: one for each enabled channel.\<close>

definition fanOut :: "configuration \<Rightarrow> event \<Rightarrow> payload \<Rightarrow> bytes \<Rightarrow> event list" where
  "fanOut c e p b =
     (if Server (Email c) \<noteq> '''' then [e] else []) @
     (if WebHook_URL (WebHook c) \<noteq> ''''
      then [Call_sendWebHook (Score p) (DisplayName p) b] else [])"

text \<open>The argument of \<^verbatim>\<open>After\<close> in the loop body: the end of the mute window.\<close>

abbreviation muteEnd :: "globals \<Rightarrow> Time" where
  "muteEnd g \<equiv> Time_Add (lastNotificationSent g)
                 (word_of_int (NotifyMuteMinutes (Run (config g))) * Minute)"

section \<open>A sample run\<close>

text \<open>The variables as the program starts: \<^verbatim>\<open>config\<close> as loaded, every other one zero.\<close>

definition initial_globals :: "configuration \<Rightarrow> globals" where
  "initial_globals c =
     \<lparr>config = c,
      var_r = \<lparr>Min_X = 0, Min_Y = 0, Max_X = 0, Max_Y = 0\<rparr>,
      buf = [],
      lastNotificationSent = zeroTime,
      trace = [],
      steps = 0\<rparr>"

text \<open>
  The configuration of the sample file \<^verbatim>\<open>pd.yaml\<close> (the interval is commented out
  there; the section for push messages belongs to another revision).
\<close>

definition sample_config :: configuration where
  "sample_config =
     \<lparr>Run = \<lparr>Interval = 0, SleepHour = 22, WakeHour = 7, NotifyOnStart = True,
             NotifyMuteMinutes = 60\<rparr>,
      Motion = \<lparr>LogPath = ''/nvr/motion.log'', CameraID = ''AABBCCDD''\<rparr>,
      Image_cfg = \<lparr>Image_URL = ''http://192.168.1.10/snap.jpeg'', CacheFile = ''img.jpeg'',
                   ArchivePath = ''./'',
                   Rect = \<lparr>X1 = 0, Y1 = 0, X2 = 600, Y2 = 400\<rparr>\<rparr>,
      Vision = \<lparr>AuthFile = ''/pd/package-detector-abc1235abc123.json'',
                Vision_URL = ''https://automl.googleapis.com/v1beta1/projects/package-detector'' @
                             ''/locations/us-central1/models/ICN1122334455667788:predict'',
                PackageLabel = ''package'', Threshold = 75\<rparr>,
      Email = \<lparr>From = ''john@example.com'', To = [''jane@example.com'', ''tom@example.com''],
               Server = ''smtp.example.com'', Port = 587, User = ''jane'', Pass = ''secret''\<rparr>,
      WebHook = \<lparr>WebHook_URL = ''http://www.example.com/test''\<rparr>\<rparr>"

text \<open>The variables once \<^verbatim>\<open>main\<close> has initialised the sample configuration.\<close>

definition sample_globals :: globals where
  "sample_globals = (initial_globals sample_config)
     \<lparr>var_r := \<lparr>Min_X = 0, Min_Y = 0, Max_X = 600, Max_Y = 400\<rparr>\<rparr>"

text \<open>\<^verbatim>\<open>strings.TrimSpace\<close> on a string of ASCII characters.\<close>

definition isSpace :: "char \<Rightarrow> bool" where
  "isSpace c = (c \<in> {CHR '' '', CHR 0x09, CHR 0x0A, CHR 0x0B, CHR 0x0C, CHR 0x0D})"

definition trimSpace :: "string \<Rightarrow> string" where
  "trimSpace s = rev (dropWhile isSpace (rev (dropWhile isSpace s)))"

text \<open>
  An environment in which every collaborator answers without error: the clock reads
  \<open>clock\<close>, the classification service answers \<open>resp\<close>.
\<close>

definition sample_env :: "(nat \<Rightarrow> Time) \<Rightarrow> visionResponse \<Rightarrow> unit env" where
  "sample_env clock resp =
     \<lparr>time_Now = clock,
      exec_CombinedOutput = (\<lambda>n authFile. (''ya29.token '', None)),
      strings_TrimSpace = trimSpace,
      http_Get = (\<lambda>n url. Inr ([255, 216, 255], None)),
      image_Decode = (\<lambda>b. (Inr (), [])),
      draw_SubImage = (\<lambda>i r. ()),
      jpeg_Encode = (\<lambda>i. ([255, 216], None)),
      base64_EncodeToString = (\<lambda>b. ''/9j/''),
      json_Marshal_visionRequest = (\<lambda>s. Inr []),
      json_Marshal_webHookBody = (\<lambda>b. Inr []),
      json_Unmarshal_visionResponse = (\<lambda>b. Inr resp),
      http_NewRequest = (\<lambda>m url. None),
      client_Do = (\<lambda>n req. Inr \<lparr>Status = ''200 OK'', resp_Body = []\<rparr>),
      time_Format_RFC3339 = (\<lambda>t. ''2019-03-01T10:00:00Z''),
      path_Join = (\<lambda>a b. a @ b),
      smtp_DialAndSend = (\<lambda>n d m. None),
      os_Stat_IsNotExist = (\<lambda>p. False)\<rparr>"

text \<open>Clock readings for the samples: \<open>m\<close> minutes after noon UTC of a day in 2019.\<close>

definition at_minute :: "int \<Rightarrow> Time" where
  "at_minute m = \<lparr>instant = (63687038400 + m * 60) * 1000000000, zoneOffset = 0\<rparr>"

text \<open>
  Sample results: a package at the \<^verbatim>\<open>float64\<close> nearest to 0.80, one at exactly 0.75, one
  at the \<^verbatim>\<open>float64\<close> nearest to 0.7501, and another label.
\<close>

definition pkg80 :: payload where
  "pkg80 = \<lparr>Score = Finite (3602879701896397 / 4503599627370496), DisplayName = ''package''\<rparr>"

definition pkg75 :: payload where
  "pkg75 = \<lparr>Score = Finite (3 / 4), DisplayName = ''package''\<rparr>"

definition pkg7501 :: payload where
  "pkg7501 = \<lparr>Score = Finite (3378150080490609 / 4503599627370496), DisplayName = ''package''\<rparr>"

definition porch :: payload where
  "porch = \<lparr>Score = Finite (1 / 2), DisplayName = ''porch''\<rparr>"

text \<open>
  The same environment with a clock that advances a minute at each reading, and five
  variants of it in which one collaborator fails: the credential, the camera, the
  decoder, the classification service, and both notification channels.
\<close>

definition noon_env :: "visionResponse \<Rightarrow> unit env" where
  "noon_env resp = sample_env (\<lambda>n. at_minute (int n)) resp"

definition env_token_fails :: "unit env" where
  "env_token_fails = (noon_env [pkg80])
     \<lparr>exec_CombinedOutput := (\<lambda>n authFile. (''ERROR: gcloud crashed'', Some ''exit status 1''))\<rparr>"

definition env_fetch_fails :: "unit env" where
  "env_fetch_fails = (noon_env [pkg80])
     \<lparr>http_Get := (\<lambda>n url. Inl ''dial tcp 192.168.1.10:80: connect: no route to host'')\<rparr>"

definition env_crop_fails :: "unit env" where
  "env_crop_fails = (noon_env [pkg80])
     \<lparr>image_Decode := (\<lambda>b. (Inl ''image: unknown format'', []))\<rparr>"

definition env_classify_fails :: "unit env" where
  "env_classify_fails = (noon_env [pkg80])
     \<lparr>json_Unmarshal_visionResponse := (\<lambda>b. Inl ''unexpected end of JSON input'')\<rparr>"

definition env_channels_fail :: "visionResponse \<Rightarrow> unit env" where
  "env_channels_fail resp = (noon_env resp)
     \<lparr>smtp_DialAndSend := (\<lambda>n d m. Some ''dial tcp: i/o timeout''),
      client_Do := (\<lambda>n req. if req_URL req = ''http://www.example.com/test''
                              then Inl ''Post http://www.example.com/test: connection refused''
                              else Inr \<lparr>Status = ''200 OK'', resp_Body = []\<rparr>)\<rparr>"

text \<open>
  Three more configurations: the sample with no cache file, no archive and no port; the
  sample with the rectangle left at zero; the sample with a rectangle whose only non-zero
  coordinate is negative.
\<close>

definition bare_config :: configuration where
  "bare_config = sample_config
     \<lparr>Image_cfg := (Image_cfg sample_config)\<lparr>CacheFile := '''', ArchivePath := ''''\<rparr>,
      Email := (Email sample_config)\<lparr>Port := 0\<rparr>\<rparr>"

definition uncropped_config :: configuration where
  "uncropped_config = sample_config
     \<lparr>Image_cfg := (Image_cfg sample_config)\<lparr>Rect := \<lparr>X1 = 0, Y1 = 0, X2 = 0, Y2 = 0\<rparr>\<rparr>\<rparr>"

definition negative_rect_config :: configuration where
  "negative_rect_config = sample_config
     \<lparr>Image_cfg := (Image_cfg sample_config)\<lparr>Rect := \<lparr>X1 = - 1, Y1 = 0, X2 = 0, Y2 = 0\<rparr>\<rparr>\<rparr>"

text \<open>
  The three cycles of the mute window: one world whose clock stands at noon during the
  first cycle, thirty minutes later during the second and sixty-one minutes later from
  the third on (the first cycle reads or answers eight calls, the second five).
\<close>

definition example_clock :: "nat \<Rightarrow> Time" where
  "example_clock n = at_minute (if n < 8 then 0 else if n < 13 then 30 else 61)"

definition example_env :: "visionResponse \<Rightarrow> unit env" where
  "example_env resp = sample_env example_clock resp"

text \<open>An environment in which only the SMTP server fails.\<close>

definition env_smtp_fails :: "visionResponse \<Rightarrow> unit env" where
  "env_smtp_fails resp = (noon_env resp)
     \<lparr>smtp_DialAndSend := (\<lambda>n d m. Some ''dial tcp: i/o timeout'')\<rparr>"

text \<open>
  The sample configuration with \<^verbatim>\<open>notifyonstart: false\<close> and a mute window of 153722868
  minutes, with threshold 7, and with threshold 80; a package at the \<^verbatim>\<open>float64\<close> nearest
  to 0.07.
\<close>

definition long_mute_config :: configuration where
  "long_mute_config = sample_config
     \<lparr>Run := (Run sample_config)\<lparr>NotifyOnStart := False, NotifyMuteMinutes := 153722868\<rparr>\<rparr>"

definition threshold7_config :: configuration where
  "threshold7_config = sample_config
     \<lparr>Run := (Run sample_config)\<lparr>NotifyOnStart := False\<rparr>,
      Vision := (Vision sample_config)\<lparr>Threshold := 7\<rparr>\<rparr>"

definition threshold80_config :: configuration where
  "threshold80_config = sample_config
     \<lparr>Run := (Run sample_config)\<lparr>NotifyOnStart := False\<rparr>,
      Vision := (Vision sample_config)\<lparr>Threshold := 80\<rparr>\<rparr>"

definition pkg07 :: payload where
  "pkg07 = \<lparr>Score = Finite (1261007895663739 / 18014398509481984), DisplayName = ''package''\<rparr>"

section \<open>What each operation leaves unchanged\<close>

lemma emit_simps [simp]:
  "config (emit e g) = config g" "var_r (emit e g) = var_r g" "buf (emit e g) = buf g"
  "lastNotificationSent (emit e g) = lastNotificationSent g"
  "steps (emit e g) = steps g" "trace (emit e g) = trace g @ [e]"
  by (simp_all add: emit_def)

lemma tick_simps [simp]:
  "config (tick g) = config g" "var_r (tick g) = var_r g" "buf (tick g) = buf g"
  "lastNotificationSent (tick g) = lastNotificationSent g"
  "steps (tick g) = Suc (steps g)" "trace (tick g) = trace g"
  by (simp_all add: tick_def)

lemma log_Println_simps [simp]:
  "config (log_Println l g) = config g" "var_r (log_Println l g) = var_r g"
  "buf (log_Println l g) = buf g"
  "lastNotificationSent (log_Println l g) = lastNotificationSent g"
  "steps (log_Println l g) = steps g" "trace (log_Println l g) = trace g @ [Println l]"
  by (simp_all add: log_Println_def)

lemma calls_simps [simp]:
  "calls (emit e g) = calls g @ (if is_call e then [e] else [])"
  "calls (tick g) = calls g"
  "calls (log_Println l g) = calls g"
  "calls (g\<lparr>lastNotificationSent := t\<rparr>) = calls g"
  "calls (g\<lparr>buf := b\<rparr>) = calls g"
  by (simp_all add: calls_def)

lemma emailResult_frame:
  "config (emailResult w s b g) = config g"
  "var_r (emailResult w s b g) = var_r g"
  "buf (emailResult w s b g) = buf g"
  "lastNotificationSent (emailResult w s b g) = lastNotificationSent g"
  "steps (emailResult w s b g) = Suc (steps g)"
  "calls (emailResult w s b g) = calls g @ [Call_emailResult s b]"
  by (simp_all add: emailResult_def Let_def split: option.splits)

lemma sendWebHook_frame:
  "config (state_of (sendWebHook w s l i g)) = config g"
  "var_r (state_of (sendWebHook w s l i g)) = var_r g"
  "buf (state_of (sendWebHook w s l i g)) = buf g"
  "lastNotificationSent (state_of (sendWebHook w s l i g)) = lastNotificationSent g"
  "calls (state_of (sendWebHook w s l i g)) = calls g @ [Call_sendWebHook s l i]"
  by (simp_all add: sendWebHook_def Let_def split: option.splits sum.splits)

lemma notifyDetected_frame:
  "config (state_of (notifyDetected w p g)) = config g"
  "var_r (state_of (notifyDetected w p g)) = var_r g"
  "buf (state_of (notifyDetected w p g)) = buf g"
  "lastNotificationSent (state_of (notifyDetected w p g)) = lastNotificationSent g"
  "calls (state_of (notifyDetected w p g)) = calls g @ fanOut (config g) detectedEmail p (buf g)"
  by (simp_all add: notifyDetected_def Let_def emailResult_frame sendWebHook_frame
        detectedEmail_def fanOut_def)

lemma notifyForced_frame:
  "config (state_of (notifyForced w p g)) = config g"
  "var_r (state_of (notifyForced w p g)) = var_r g"
  "buf (state_of (notifyForced w p g)) = buf g"
  "lastNotificationSent (state_of (notifyForced w p g)) = lastNotificationSent g"
  "calls (state_of (notifyForced w p g)) = calls g @ fanOut (config g) restartEmail p (buf g)"
  by (simp_all add: notifyForced_def Let_def emailResult_frame sendWebHook_frame
        restartEmail_def fanOut_def)

lemma processImage_body_frame:
  "config (state_of (processImage_body w f p g)) = config g"
  "var_r (state_of (processImage_body w f p g)) = var_r g"
  "buf (state_of (processImage_body w f p g)) = buf g"
  by (simp_all add: processImage_body_def Let_def Now_def notifyDetected_frame notifyForced_frame)

lemma processImage_body_calls:
  "calls (state_of (processImage_body w f p g)) = calls g @
     (if matched (config g) p
      then (if Time_After (time_Now w (steps g)) (muteEnd g)
            then fanOut (config g) detectedEmail p (buf g) else [])
      else if f then fanOut (config g) restartEmail p (buf g)
      else [])"
  by (simp add: processImage_body_def Let_def Now_def notifyDetected_frame notifyForced_frame)

lemma processImage_body_last:
  "lastNotificationSent (state_of (processImage_body w f p g)) =
     (if matched (config g) p \<and> Time_After (time_Now w (steps g)) (muteEnd g)
      then time_Now w (Suc (steps g)) else lastNotificationSent g)"
  by (simp add: processImage_body_def Let_def Now_def notifyDetected_frame notifyForced_frame)

section \<open>Facts about the sample run\<close>

lemma trimSpace_token [simp]: "trimSpace ''ya29.token '' = ''ya29.token''"
  by (simp add: trimSpace_def isSpace_def)

lemma sample_config_simps [simp]:
  "Server (Email sample_config) = ''smtp.example.com''"
  "WebHook_URL (WebHook sample_config) = ''http://www.example.com/test''"
  "NotifyMuteMinutes (Run sample_config) = 60"
  "PackageLabel (Vision sample_config) = ''package''"
  "Threshold (Vision sample_config) = 75"
  by (simp_all add: sample_config_def)

lemma initial_globals_simps [simp]:
  "config (initial_globals c) = c" "buf (initial_globals c) = []"
  "lastNotificationSent (initial_globals c) = zeroTime" "calls (initial_globals c) = []"
  "steps (initial_globals c) = 0" "trace (initial_globals c) = []"
  by (simp_all add: initial_globals_def calls_def)

lemma sample_globals_simps [simp]:
  "config sample_globals = sample_config" "buf sample_globals = []"
  "lastNotificationSent sample_globals = zeroTime" "calls sample_globals = []"
  "steps sample_globals = 0" "trace sample_globals = []"
  "var_r sample_globals = \<lparr>Min_X = 0, Min_Y = 0, Max_X = 600, Max_Y = 400\<rparr>"
  by (simp_all add: sample_globals_def initial_globals_def calls_def)

lemma sample_env_clock [simp]: "time_Now (sample_env clock resp) = clock"
  by (simp add: sample_env_def)

lemma threshold_75: "float64_of_int 75 = Finite 75"
  by code_simp

lemma pkg80_product: "float64_mul (Score pkg80) (Finite 100) = Finite 80"
  unfolding pkg80_def by code_simp

lemma pkg75_product: "float64_mul (Score pkg75) (Finite 100) = Finite 75"
  unfolding pkg75_def by code_simp

lemma pkg7501_product:
  "float64_mul (Score pkg7501) (Finite 100) = Finite (5278359500766577 / 70368744177664)"
  unfolding pkg7501_def by code_simp

lemma pkg80_matched: "matched sample_config pkg80"
  by (simp add: matched_def pkg80_product threshold_75) (simp add: pkg80_def)

lemma porch_not_matched: "\<not> matched sample_config porch"
  by (simp add: matched_def porch_def)

lemma porch_never_matched:
  "PackageLabel (Vision c) = ''package'' \<Longrightarrow> \<not> matched c porch"
  by (simp add: matched_def porch_def)

section \<open>Schedule policy: the awake window\<close>

lemma Time_Hour_range: "0 \<le> Time_Hour t \<and> Time_Hour t \<le> 23"
  unfolding Time_Hour_def by (simp add: pos_imp_zdiv_nonneg_iff)

lemma runCfg_isAwake_eq:
  "fst (runCfg_isAwake w r g) = isAwake (time_Now w (steps g)) (SleepHour r) (WakeHour r)"
  by (simp add: runCfg_isAwake_def isAwake_def Now_def Let_def)

text \<open>
  Claim C2. The hour of a time is one of 0..23. With equal sleep and wake hours
  \<open>isAwake\<close> is true at every hour; with the sleep hour after the wake hour it is true
  exactly at the hours from the wake hour up to, not including, the sleep hour; with the
  sleep hour before the wake hour it is true exactly at the hours before the sleep hour
  and from the wake hour on. The method \<open>runCfg.isAwake\<close> is \<open>isAwake\<close> at the reading
  of the clock.
\<close>

theorem isAwake_by_hour:
  "0 \<le> Time_Hour now \<and> Time_Hour now \<le> 23 \<and>
   (sleepHour = wakeHour \<longrightarrow> isAwake now sleepHour wakeHour) \<and>
   (sleepHour > wakeHour \<longrightarrow>
      (isAwake now sleepHour wakeHour \<longleftrightarrow>
         wakeHour \<le> Time_Hour now \<and> Time_Hour now < sleepHour)) \<and>
   (sleepHour < wakeHour \<longrightarrow>
      (isAwake now sleepHour wakeHour \<longleftrightarrow>
         Time_Hour now < sleepHour \<or> wakeHour \<le> Time_Hour now)) \<and>
   fst (runCfg_isAwake w r g) = isAwake (time_Now w (steps g)) (SleepHour r) (WakeHour r)"
  using Time_Hour_range [of now] runCfg_isAwake_eq [of w r g]
  by (auto simp: isAwake_def Let_def)

lemma at_minute_hours:
  "Time_Hour (at_minute 0) = 12" "Time_Hour (at_minute (- 300)) = 7"
  "Time_Hour (at_minute (- 301)) = 6" "Time_Hour (at_minute 599) = 21"
  "Time_Hour (at_minute 600) = 22" "Time_Hour (at_minute (- 420)) = 5"
  "Time_Hour (at_minute (- 360)) = 6"
  by (simp_all add: Time_Hour_def at_minute_def)

theorem isAwake_by_hour_witness:
  "isAwake (at_minute 0) 22 7 \<and> isAwake (at_minute (- 300)) 22 7 \<and>
   isAwake (at_minute 599) 22 7 \<and> \<not> isAwake (at_minute 600) 22 7 \<and>
   \<not> isAwake (at_minute (- 301)) 22 7 \<and>
   isAwake (at_minute (- 420)) 6 22 \<and> isAwake (at_minute 600) 6 22 \<and>
   \<not> isAwake (at_minute (- 360)) 6 22 \<and> \<not> isAwake (at_minute 599) 6 22 \<and>
   isAwake (at_minute 0) 9 9 \<and> isAwake (at_minute 600) 22 22 \<and>
   fst (runCfg_isAwake (sample_env (\<lambda>n. at_minute 600) []) (Run sample_config)
          sample_globals) = False"
proof -
  have r: "SleepHour (Run sample_config) = 22" "WakeHour (Run sample_config) = 7"
    by (simp_all add: sample_config_def)
  note h = isAwake_by_hour [where w = "sample_env (\<lambda>n. at_minute 600) []"
             and r = "Run sample_config" and g = "sample_globals"]
  show ?thesis
    using h [of "at_minute 0" 22 7] h [of "at_minute (- 300)" 22 7]
      h [of "at_minute 599" 22 7] h [of "at_minute 600" 22 7]
      h [of "at_minute (- 301)" 22 7]
      h [of "at_minute (- 420)" 6 22] h [of "at_minute 600" 6 22]
      h [of "at_minute (- 360)" 6 22] h [of "at_minute 599" 6 22]
      h [of "at_minute 0" 9 9] h [of "at_minute 600" 22 22]
    by (simp add: at_minute_hours r)
qed

text \<open>
  Claim C10. \<open>isAwake\<close> depends on its time argument through the hour of the day only:
  two times with the same hour, whatever their minutes, seconds, dates and zones, give
  the same answer for the same sleep and wake hours. The same holds of the method
  \<open>runCfg.isAwake\<close> for two readings of the clock with the same hour.
\<close>

theorem isAwake_only_hour:
  "(Time_Hour now1 = Time_Hour now2 \<longrightarrow>
      isAwake now1 sleepHour wakeHour = isAwake now2 sleepHour wakeHour) \<and>
   (Time_Hour (time_Now w1 (steps g1)) = Time_Hour (time_Now w2 (steps g2)) \<longrightarrow>
      fst (runCfg_isAwake w1 r g1) = fst (runCfg_isAwake w2 r g2))"
  by (auto simp: isAwake_def runCfg_isAwake_def Now_def Let_def)

lemma same_hour:
  "Time_Hour \<lparr>instant = 63687038400000000000, zoneOffset = 0\<rparr> =
   Time_Hour \<lparr>instant = 63711248967123456789, zoneOffset = - 18000\<rparr>"
  by (simp add: Time_Hour_def)

theorem isAwake_only_hour_witness:
  "Time_Hour \<lparr>instant = 63687038400000000000, zoneOffset = 0\<rparr> =
     Time_Hour \<lparr>instant = 63711248967123456789, zoneOffset = - 18000\<rparr> \<and>
   isAwake \<lparr>instant = 63687038400000000000, zoneOffset = 0\<rparr> 22 7 =
     isAwake \<lparr>instant = 63711248967123456789, zoneOffset = - 18000\<rparr> 22 7 \<and>
   fst (runCfg_isAwake (sample_env (\<lambda>n. \<lparr>instant = 63687038400000000000, zoneOffset = 0\<rparr>) [])
          (Run sample_config) sample_globals) =
     fst (runCfg_isAwake
          (sample_env (\<lambda>n. \<lparr>instant = 63711248967123456789, zoneOffset = - 18000\<rparr>) [pkg80])
          (Run sample_config) (sample_globals\<lparr>steps := 7\<rparr>))"
  using same_hour
    isAwake_only_hour [of "\<lparr>instant = 63687038400000000000, zoneOffset = 0\<rparr>"
      "\<lparr>instant = 63711248967123456789, zoneOffset = - 18000\<rparr>" 22 7
      "sample_env (\<lambda>n. \<lparr>instant = 63687038400000000000, zoneOffset = 0\<rparr>) []"
      "sample_globals"
      "sample_env (\<lambda>n. \<lparr>instant = 63711248967123456789, zoneOffset = - 18000\<rparr>) [pkg80]"
      "sample_globals\<lparr>steps := 7\<rparr>" "Run sample_config"]
  by simp

section \<open>Notification decision: the mute window\<close>

lemma sint_word64_of_int:
  assumes "- 9223372036854775808 \<le> k" "k < 9223372036854775808"
  shows "sint (word_of_int k :: 64 word) = k"
proof -
  have "(k + 9223372036854775808) mod 18446744073709551616 = k + 9223372036854775808"
    using assms by (intro mod_pos_pos_trivial) simp_all
  then show ?thesis by (simp add: int_word_sint)
qed

lemma muteDuration_exact:
  assumes "- 153722867 \<le> m" "m \<le> 153722867"
  shows "sint (word_of_int m * Minute :: 64 word) = 60000000000 * m"
proof -
  have "sint (word_of_int (60000000000 * m) :: 64 word) = 60000000000 * m"
    using assms by (intro sint_word64_of_int) simp_all
  then show ?thesis by (simp add: Minute_def mult.commute)
qed

lemma sint64_less: "sint (d :: 64 word) < 9223372036854775808"
  using sint_lt [of d] by simp

lemma zeroTime_mute_over:
  assumes "lastNotificationSent g = zeroTime" "unixEpoch \<le> instant now"
  shows "Time_After now (muteEnd g)"
  using assms sint64_less [of "word_of_int (NotifyMuteMinutes (Run (config g))) * Minute"]
  by (simp add: Time_After_def Time_Add_def zeroTime_def unixEpoch_def)

section \<open>Notification decision: the threshold\<close>

lemma float64_gt_irrefl: "\<not> float64_gt x x"
  by (cases x) simp_all

lemma round_half_even_of_int: "round_half_even (of_int k) = k"
  by (simp add: round_half_even_def)

lemma quotient_of_of_int: "quotient_of (of_int k) = (k, 1)"
  by (metis Rat.of_int_def quotient_of_int)

lemma ilog2_of_int:
  assumes "0 < k"
  shows "ilog2 (of_int k) = bitlen k - 1"
proof -
  have b: "2 ^ nat (bitlen k - 1) \<le> k" "1 \<le> bitlen k"
    using bitlen_bounds [OF assms] assms by (auto simp: bitlen_alt_def)
  have "pow2 (bitlen k - 1) \<le> of_int k"
  proof -
    have "(of_int (2 ^ nat (bitlen k - 1)) :: rat) \<le> of_int k"
      using b(1) by (simp only: of_int_le_iff)
    then show ?thesis using b(2) by (simp add: pow2_def)
  qed
  moreover have "bitlen 1 = 1" by (simp add: bitlen_alt_def)
  ultimately show ?thesis
    by (simp add: ilog2_def quotient_of_of_int)
qed

lemma float64_round_of_int:
  assumes "\<bar>n\<bar> < 9007199254740992"
  shows "float64_round (of_int n) = Finite (of_int n)"
proof (cases "n = 0")
  case True
  then show ?thesis by (simp add: float64_round_def)
next
  case False
  define k where "k = \<bar>n\<bar>"
  have k: "0 < k" "k < 2 ^ 53" using False assms by (simp_all add: k_def)
  have bl: "1 \<le> bitlen k" "bitlen k \<le> 53"
  proof -
    show "1 \<le> bitlen k" using k(1) by (auto simp: bitlen_alt_def)
    have "2 ^ nat (bitlen k - 1) \<le> k" using bitlen_bounds [OF k(1)] by simp
    then have "(2::int) ^ nat (bitlen k - 1) < 2 ^ 53" using k(2) by linarith
    then have "nat (bitlen k - 1) < 53" by (simp only: power_strict_increasing_iff) 
    then show "bitlen k \<le> 53" by linarith
  qed
  define e where "e = bitlen k - 1"
  have e: "0 \<le> e" "e \<le> 52" using bl by (simp_all add: e_def)
  have il: "ilog2 \<bar>of_int n\<bar> = e"
    using ilog2_of_int [OF k(1)] by (simp add: k_def e_def)
  have q: "pow2 (e - 52) = 1 / 2 ^ nat (52 - e)"
    using e by (cases "e = 52") (simp_all add: pow2_def)
  have "(of_int n :: rat) / pow2 (e - 52) = of_int (n * 2 ^ nat (52 - e))"
    by (simp add: q)
  then have r: "round_half_even (of_int n / pow2 (e - 52)) = n * 2 ^ nat (52 - e)"
    by (simp only: round_half_even_of_int)
  have m: "max e (- 1022) = e" using e by simp
  show ?thesis
    using False e by (simp add: float64_round_def il m r Let_def) (simp add: q)
qed

lemma float64_of_int_exact:
  "\<bar>n\<bar> < 9007199254740992 \<Longrightarrow> float64_of_int n = Finite (of_int n)"
  by (simp add: float64_of_int_def float64_round_of_int)

lemma pkg75_not_matched: "\<not> matched sample_config pkg75"
  by (simp add: matched_def pkg75_product threshold_75)

lemma pkg7501_matched: "matched sample_config pkg7501"
  by (simp add: matched_def pkg7501_product threshold_75) (simp add: pkg7501_def)

lemma pkg7501_parsed: "float64_round (7501 / 10000) = Score pkg7501"
  unfolding pkg7501_def by code_simp

section \<open>Detection pipeline: failures\<close>

lemma getGoogleToken_frame:
  "config (snd (getGoogleToken w g)) = config g"
  "var_r (snd (getGoogleToken w g)) = var_r g"
  "buf (snd (getGoogleToken w g)) = buf g"
  "lastNotificationSent (snd (getGoogleToken w g)) = lastNotificationSent g"
  "steps (snd (getGoogleToken w g)) = Suc (steps g)"
  "trace (snd (getGoogleToken w g)) =
     trace g @ [Call_getGoogleToken, Exec_gcloud (AuthFile (Vision (config g)))]"
  by (simp_all add: getGoogleToken_def Let_def split: prod.splits option.splits)

lemma fetchImage_frame:
  "config (snd (fetchImage w g)) = config g"
  "var_r (snd (fetchImage w g)) = var_r g"
  "lastNotificationSent (snd (fetchImage w g)) = lastNotificationSent g"
  "steps (snd (fetchImage w g)) = Suc (steps g)"
  "trace (snd (fetchImage w g)) =
     trace g @ [Call_fetchImage, Http_Get (Image_URL (Image_cfg (config g)))]"
  by (simp_all add: fetchImage_def Let_def split: prod.splits sum.splits)

lemma fetchImage_buf:
  "http_Get w (steps g) (Image_URL (Image_cfg (config g))) = Inr (body, err) \<Longrightarrow>
   fetchImage w g = (err, snd (fetchImage w g)) \<and> buf (snd (fetchImage w g)) = body"
  by (simp add: fetchImage_def Let_def)

lemma cropImage_frame:
  "config (snd (cropImage w r g)) = config g"
  "var_r (snd (cropImage w r g)) = var_r g"
  "lastNotificationSent (snd (cropImage w r g)) = lastNotificationSent g"
  "steps (snd (cropImage w r g)) = steps g"
  "trace (snd (cropImage w r g)) = trace g @ [Call_cropImage r]"
  by (simp_all add: cropImage_def Let_def split: prod.splits sum.splits)

lemma evaluateImageJSON_frame:
  "config (snd (evaluateImageJSON w t g)) = config g"
  "var_r (snd (evaluateImageJSON w t g)) = var_r g"
  "buf (snd (evaluateImageJSON w t g)) = buf g"
  "lastNotificationSent (snd (evaluateImageJSON w t g)) = lastNotificationSent g"
  "calls (snd (evaluateImageJSON w t g)) = calls g @ [Call_evaluateImageJSON t]"
  by (simp_all add: evaluateImageJSON_def Let_def Now_def split: prod.splits sum.splits option.splits)

lemma calls_trace: "trace g' = trace g @ es \<Longrightarrow> calls g' = calls g @ filter is_call es"
  by (simp add: calls_def)

lemma steps_calls:
  "calls (snd (getGoogleToken w g)) = calls g @ [Call_getGoogleToken]"
  "calls (snd (fetchImage w g)) = calls g @ [Call_fetchImage]"
  "calls (snd (cropImage w r g)) = calls g @ [Call_cropImage r]"
  by (simp_all add: calls_trace [OF getGoogleToken_frame(6)] calls_trace [OF fetchImage_frame(5)]
        calls_trace [OF cropImage_frame(5)])

lemma getGoogleToken_rel:
  assumes "getGoogleToken w g = (r, g1)"
  shows "config g1 = config g" "var_r g1 = var_r g" "buf g1 = buf g"
    "lastNotificationSent g1 = lastNotificationSent g" "steps g1 = Suc (steps g)"
    "calls g1 = calls g @ [Call_getGoogleToken]"
    "trace g1 = trace g @ [Call_getGoogleToken, Exec_gcloud (AuthFile (Vision (config g)))]"
  using assms getGoogleToken_frame [of w g] steps_calls(1) [of w g] by simp_all

lemma fetchImage_rel:
  assumes "fetchImage w g = (r, g1)"
  shows "config g1 = config g" "var_r g1 = var_r g"
    "lastNotificationSent g1 = lastNotificationSent g" "steps g1 = Suc (steps g)"
    "calls g1 = calls g @ [Call_fetchImage]"
    "trace g1 = trace g @ [Call_fetchImage, Http_Get (Image_URL (Image_cfg (config g)))]"
  using assms fetchImage_frame [of w g] steps_calls(2) [of w g] by simp_all

lemma cropImage_rel:
  assumes "cropImage w r g = (e, g1)"
  shows "config g1 = config g" "var_r g1 = var_r g"
    "lastNotificationSent g1 = lastNotificationSent g" "steps g1 = steps g"
    "calls g1 = calls g @ [Call_cropImage r]"
    "trace g1 = trace g @ [Call_cropImage r]"
  using assms cropImage_frame [of w r g] steps_calls(3) [of w r g] by simp_all

lemma evaluateImageJSON_rel:
  assumes "evaluateImageJSON w t g = (r, g1)"
  shows "config g1 = config g" "var_r g1 = var_r g" "buf g1 = buf g"
    "lastNotificationSent g1 = lastNotificationSent g"
    "calls g1 = calls g @ [Call_evaluateImageJSON t]"
  using assms evaluateImageJSON_frame [of w t g] by simp_all

lemma abort_token:
  assumes "getGoogleToken w g = ((out, Some err), g1)"
  shows "processImage w f g = Returned (log_Println (Log_TokenError err out) g1)"
        "calls g1 = calls g @ [Call_getGoogleToken]"
  using assms getGoogleToken_rel [OF assms]
  by (simp_all add: processImage_def processImage_steps_def)

lemma abort_fetch:
  assumes "getGoogleToken w g = ((token, None), g1)" "fetchImage w g1 = (Some err, g2)"
  shows "processImage w f g = Returned (log_Println (Log_FetchError err) g2)"
        "calls g2 = calls g @ [Call_getGoogleToken, Call_fetchImage]"
  using assms getGoogleToken_rel [OF assms(1)] fetchImage_rel [OF assms(2)]
  by (simp_all add: processImage_def processImage_steps_def)

lemma abort_crop:
  assumes "getGoogleToken w g = ((token, None), g1)" "fetchImage w g1 = (None, g2)"
    "isCropSpecified (Image_cfg (config g))" "cropImage w (var_r g) g2 = (Some err, g3)"
  shows "processImage w f g = Returned (log_Println (Log_CropFailed err) g3)"
        "calls g3 = calls g @ [Call_getGoogleToken, Call_fetchImage, Call_cropImage (var_r g)]"
  using assms getGoogleToken_rel [OF assms(1)] fetchImage_rel [OF assms(2)]
    cropImage_rel [OF assms(4)]
  by (simp_all add: processImage_def processImage_steps_def)

lemma abort_evaluate:
  assumes "getGoogleToken w g = ((token, None), g1)" "fetchImage w g1 = (None, g2)"
    "(if isCropSpecified (Image_cfg (config g)) then cropImage w (var_r g) g2 else (None, g2))
       = (None, g3)"
    "evaluateImageJSON w token g3 = (Inl err, g4)"
  shows "processImage w f g = Returned (log_Println (Log_EvalError err) g4)"
        "calls g4 = calls g3 @ [Call_evaluateImageJSON token]"
  using assms getGoogleToken_rel [OF assms(1)] fetchImage_rel [OF assms(2)]
    evaluateImageJSON_rel [OF assms(4)]
  by (cases "isCropSpecified (Image_cfg (config g))";
      simp add: processImage_def processImage_steps_def)+

lemma filter_dispatch_calls [simp]:
  "filter is_dispatch (calls g @ [Call_getGoogleToken]) = filter is_dispatch (calls g)"
  "filter is_dispatch (calls g @ [Call_fetchImage]) = filter is_dispatch (calls g)"
  "filter is_dispatch (calls g @ [Call_cropImage r]) = filter is_dispatch (calls g)"
  "filter is_dispatch (calls g @ [Call_evaluateImageJSON t]) = filter is_dispatch (calls g)"
  by simp_all

lemma steps_abort:
  assumes "processImage_steps w g = Inl g'"
  shows "lastNotificationSent g' = lastNotificationSent g \<and> config g' = config g \<and>
         filter is_dispatch (calls g') = filter is_dispatch (calls g) \<and>
         (\<exists>l. trace g' \<noteq> [] \<and> last (trace g') = Println l)"
proof -
  obtain r1 g1 where t: "getGoogleToken w g = (r1, g1)" by (cases "getGoogleToken w g") auto
  obtain r2 g2 where f: "fetchImage w g1 = (r2, g2)" by (cases "fetchImage w g1") auto
  obtain r3 g3 where c:
    "(if isCropSpecified (Image_cfg (config g2)) then cropImage w (var_r g2) g2 else (None, g2))
       = (r3, g3)"
    by (cases "if isCropSpecified (Image_cfg (config g2)) then cropImage w (var_r g2) g2
               else (None, g2)") auto
  obtain r4 g4 where e: "evaluateImageJSON w (fst r1) g3 = (r4, g4)"
    by (cases "evaluateImageJSON w (fst r1) g3") auto
  note T = getGoogleToken_rel [OF t]
  note F = fetchImage_rel [OF f]
  note E = evaluateImageJSON_rel [OF e]
  have C: "config g3 = config g2" "lastNotificationSent g3 = lastNotificationSent g2"
    "filter is_dispatch (calls g3) = filter is_dispatch (calls g2)"
    using c by (auto split: if_splits dest: cropImage_rel)
  show ?thesis
    using assms t f c e T(1,4,6) F(1,3,5) C E(1,4,5)
    by (cases r1; cases r4) (auto simp: processImage_steps_def split: option.splits)
qed

text \<open>
  Claim C8. If the credential, the fetch, the crop or the classification fails,
  \<open>processImage\<close> returns right after the log line of that failure: the functions called
  are those up to the failing step and no later one, no call of the dispatcher is made,
  and \<open>lastNotificationSent\<close> and the configuration are as before.
\<close>

theorem failed_step_aborts_cycle:
  "(getGoogleToken w g = ((out, Some err), g1) \<longrightarrow>
      processImage w forceNotify g = Returned (log_Println (Log_TokenError err out) g1) \<and>
      calls g1 = calls g @ [Call_getGoogleToken]) \<and>
   (getGoogleToken w g = ((token, None), g1) \<and> fetchImage w g1 = (Some err, g2) \<longrightarrow>
      processImage w forceNotify g = Returned (log_Println (Log_FetchError err) g2) \<and>
      calls g2 = calls g @ [Call_getGoogleToken, Call_fetchImage]) \<and>
   (getGoogleToken w g = ((token, None), g1) \<and> fetchImage w g1 = (None, g2) \<and>
    isCropSpecified (Image_cfg (config g)) \<and> cropImage w (var_r g) g2 = (Some err, g3) \<longrightarrow>
      processImage w forceNotify g = Returned (log_Println (Log_CropFailed err) g3) \<and>
      calls g3 = calls g @ [Call_getGoogleToken, Call_fetchImage, Call_cropImage (var_r g)]) \<and>
   (getGoogleToken w g = ((token, None), g1) \<and> fetchImage w g1 = (None, g2) \<and>
    (if isCropSpecified (Image_cfg (config g)) then cropImage w (var_r g) g2 else (None, g2))
      = (None, g3) \<and>
    evaluateImageJSON w token g3 = (Inl err, g4) \<longrightarrow>
      processImage w forceNotify g = Returned (log_Println (Log_EvalError err) g4) \<and>
      calls g4 = calls g3 @ [Call_evaluateImageJSON token]) \<and>
   (processImage_steps w g = Inl g' \<longrightarrow>
      processImage w forceNotify g = Returned g' \<and>
      lastNotificationSent g' = lastNotificationSent g \<and> config g' = config g \<and>
      filter is_dispatch (calls g') = filter is_dispatch (calls g) \<and>
      (\<exists>l. trace g' \<noteq> [] \<and> last (trace g') = Println l))"
proof -
  have 1: "getGoogleToken w g = ((out, Some err), g1) \<longrightarrow>
      processImage w forceNotify g = Returned (log_Println (Log_TokenError err out) g1) \<and>
      calls g1 = calls g @ [Call_getGoogleToken]"
    by (blast intro: abort_token)
  have 2: "getGoogleToken w g = ((token, None), g1) \<and> fetchImage w g1 = (Some err, g2) \<longrightarrow>
      processImage w forceNotify g = Returned (log_Println (Log_FetchError err) g2) \<and>
      calls g2 = calls g @ [Call_getGoogleToken, Call_fetchImage]"
    by (blast intro: abort_fetch)
  have 3: "getGoogleToken w g = ((token, None), g1) \<and> fetchImage w g1 = (None, g2) \<and>
    isCropSpecified (Image_cfg (config g)) \<and> cropImage w (var_r g) g2 = (Some err, g3) \<longrightarrow>
      processImage w forceNotify g = Returned (log_Println (Log_CropFailed err) g3) \<and>
      calls g3 = calls g @ [Call_getGoogleToken, Call_fetchImage, Call_cropImage (var_r g)]"
    by (blast intro: abort_crop)
  have 4: "getGoogleToken w g = ((token, None), g1) \<and> fetchImage w g1 = (None, g2) \<and>
    (if isCropSpecified (Image_cfg (config g)) then cropImage w (var_r g) g2 else (None, g2))
      = (None, g3) \<and>
    evaluateImageJSON w token g3 = (Inl err, g4) \<longrightarrow>
      processImage w forceNotify g = Returned (log_Println (Log_EvalError err) g4) \<and>
      calls g4 = calls g3 @ [Call_evaluateImageJSON token]"
    by (intro impI conjI; elim conjE) (rule abort_evaluate; assumption)+
  have 5: "processImage_steps w g = Inl g' \<longrightarrow>
      processImage w forceNotify g = Returned g' \<and>
      lastNotificationSent g' = lastNotificationSent g \<and> config g' = config g \<and>
      filter is_dispatch (calls g') = filter is_dispatch (calls g) \<and>
      (\<exists>l. trace g' \<noteq> [] \<and> last (trace g') = Println l)"
    using steps_abort [of w g g'] by (simp add: processImage_def)
  show ?thesis
    by (intro conjI 1 2 3 4 5)
qed

lemma sample_env_simps [simp]:
  "exec_CombinedOutput (sample_env clock resp) = (\<lambda>n authFile. (''ya29.token '', None))"
  "strings_TrimSpace (sample_env clock resp) = trimSpace"
  "http_Get (sample_env clock resp) = (\<lambda>n url. Inr ([255, 216, 255], None))"
  "image_Decode (sample_env clock resp) = (\<lambda>b. (Inr (), []))"
  "draw_SubImage (sample_env clock resp) = (\<lambda>i r. ())"
  "jpeg_Encode (sample_env clock resp) = (\<lambda>i. ([255, 216], None))"
  "base64_EncodeToString (sample_env clock resp) = (\<lambda>b. ''/9j/'')"
  "json_Marshal_visionRequest (sample_env clock resp) = (\<lambda>s. Inr [])"
  "json_Marshal_webHookBody (sample_env clock resp) = (\<lambda>b. Inr [])"
  "json_Unmarshal_visionResponse (sample_env clock resp) = (\<lambda>b. Inr resp)"
  "http_NewRequest (sample_env clock resp) = (\<lambda>m url. None)"
  "client_Do (sample_env clock resp) = (\<lambda>n req. Inr \<lparr>Status = ''200 OK'', resp_Body = []\<rparr>)"
  "time_Format_RFC3339 (sample_env clock resp) = (\<lambda>t. ''2019-03-01T10:00:00Z'')"
  "path_Join (sample_env clock resp) = (\<lambda>a b. a @ b)"
  "smtp_DialAndSend (sample_env clock resp) = (\<lambda>n d m. None)"
  "os_Stat_IsNotExist (sample_env clock resp) = (\<lambda>p. False)"
  by (simp_all add: sample_env_def)

lemma noon_env_simps [simp]:
  "time_Now (noon_env resp) = (\<lambda>n. at_minute (int n))"
  "exec_CombinedOutput (noon_env resp) = (\<lambda>n authFile. (''ya29.token '', None))"
  "strings_TrimSpace (noon_env resp) = trimSpace"
  "http_Get (noon_env resp) = (\<lambda>n url. Inr ([255, 216, 255], None))"
  "image_Decode (noon_env resp) = (\<lambda>b. (Inr (), []))"
  "draw_SubImage (noon_env resp) = (\<lambda>i r. ())"
  "jpeg_Encode (noon_env resp) = (\<lambda>i. ([255, 216], None))"
  "base64_EncodeToString (noon_env resp) = (\<lambda>b. ''/9j/'')"
  "json_Marshal_visionRequest (noon_env resp) = (\<lambda>s. Inr [])"
  "json_Marshal_webHookBody (noon_env resp) = (\<lambda>b. Inr [])"
  "json_Unmarshal_visionResponse (noon_env resp) = (\<lambda>b. Inr resp)"
  "http_NewRequest (noon_env resp) = (\<lambda>m url. None)"
  "client_Do (noon_env resp) = (\<lambda>n req. Inr \<lparr>Status = ''200 OK'', resp_Body = []\<rparr>)"
  "time_Format_RFC3339 (noon_env resp) = (\<lambda>t. ''2019-03-01T10:00:00Z'')"
  "path_Join (noon_env resp) = (\<lambda>a b. a @ b)"
  "smtp_DialAndSend (noon_env resp) = (\<lambda>n d m. None)"
  "os_Stat_IsNotExist (noon_env resp) = (\<lambda>p. False)"
  by (simp_all add: noon_env_def)

lemma sample_config_more [simp]:
  "ArchivePath (Image_cfg sample_config) = ''./''"
  "CacheFile (Image_cfg sample_config) = ''img.jpeg''"
  "isCropSpecified (Image_cfg sample_config)"
  by (simp_all add: sample_config_def isCropSpecified_def)

theorem failed_step_aborts_cycle_witness:
  "(let out = processImage env_token_fails True sample_globals
    in out = Returned (state_of out) \<and> calls (state_of out) = [Call_getGoogleToken] \<and>
       last (trace (state_of out)) =
         Println (Log_TokenError ''exit status 1'' ''ERROR: gcloud crashed'') \<and>
       lastNotificationSent (state_of out) = zeroTime) \<and>
   (let out = processImage env_fetch_fails True sample_globals
    in out = Returned (state_of out) \<and>
       calls (state_of out) = [Call_getGoogleToken, Call_fetchImage] \<and>
       last (trace (state_of out)) =
         Println (Log_FetchError ''dial tcp 192.168.1.10:80: connect: no route to host'') \<and>
       lastNotificationSent (state_of out) = zeroTime) \<and>
   (let out = processImage env_crop_fails True sample_globals
    in out = Returned (state_of out) \<and>
       calls (state_of out) =
         [Call_getGoogleToken, Call_fetchImage,
          Call_cropImage \<lparr>Min_X = 0, Min_Y = 0, Max_X = 600, Max_Y = 400\<rparr>] \<and>
       last (trace (state_of out)) = Println (Log_CropFailed ''image: unknown format'') \<and>
       lastNotificationSent (state_of out) = zeroTime) \<and>
   (let out = processImage env_classify_fails True sample_globals
    in out = Returned (state_of out) \<and>
       calls (state_of out) =
         [Call_getGoogleToken, Call_fetchImage,
          Call_cropImage \<lparr>Min_X = 0, Min_Y = 0, Max_X = 600, Max_Y = 400\<rparr>,
          Call_evaluateImageJSON ''ya29.token''] \<and>
       last (trace (state_of out)) =
         Println (Log_EvalError ''unexpected end of JSON input'') \<and>
       lastNotificationSent (state_of out) = zeroTime)"
proof -
  let ?g = "sample_globals"
  let ?g1 = "tick (emit (Exec_gcloud (AuthFile (Vision (config ?g)))) (emit Call_getGoogleToken ?g))"
  let ?g2 = "tick (emit (Http_Get (Image_URL (Image_cfg (config ?g1)))) (emit Call_fetchImage ?g1))"
  let ?g2' = "?g2\<lparr>buf := [255, 216, 255]\<rparr>"
  let ?g3 = "(emit (Call_cropImage (var_r ?g)) ?g2')\<lparr>buf := [255, 216]\<rparr>"
  let ?g3' = "(emit (Call_cropImage (var_r ?g)) ?g2')\<lparr>buf := []\<rparr>"
  have a: "getGoogleToken env_token_fails ?g =
             ((''ERROR: gcloud crashed'', Some ''exit status 1''), ?g1)"
    by (simp add: getGoogleToken_def env_token_fails_def Let_def)
  have b1: "getGoogleToken env_fetch_fails ?g = ((''ya29.token'', None), ?g1)"
    by (simp add: getGoogleToken_def env_fetch_fails_def Let_def)
  have b2: "fetchImage env_fetch_fails ?g1 =
              (Some ''dial tcp 192.168.1.10:80: connect: no route to host'', ?g2\<lparr>buf := []\<rparr>)"
    by (simp add: fetchImage_def env_fetch_fails_def Let_def emit_def tick_def)
  have c1: "getGoogleToken env_crop_fails ?g = ((''ya29.token'', None), ?g1)"
    by (simp add: getGoogleToken_def env_crop_fails_def Let_def)
  have c2: "fetchImage env_crop_fails ?g1 = (None, ?g2')"
    by (simp add: fetchImage_def env_crop_fails_def Let_def emit_def tick_def)
  have c3: "cropImage env_crop_fails (var_r ?g) ?g2' = (Some ''image: unknown format'', ?g3')"
    by (simp add: cropImage_def env_crop_fails_def Let_def emit_def)
  have d1: "getGoogleToken env_classify_fails ?g = ((''ya29.token'', None), ?g1)"
    by (simp add: getGoogleToken_def env_classify_fails_def Let_def)
  have d2: "fetchImage env_classify_fails ?g1 = (None, ?g2')"
    by (simp add: fetchImage_def env_classify_fails_def Let_def emit_def tick_def)
  have d3: "(if isCropSpecified (Image_cfg (config ?g))
             then cropImage env_classify_fails (var_r ?g) ?g2' else (None, ?g2')) = (None, ?g3)"
    by (simp add: cropImage_def env_classify_fails_def Let_def emit_def)
  obtain g4 where d4: "evaluateImageJSON env_classify_fails ''ya29.token'' ?g3 =
                         (Inl ''unexpected end of JSON input'', g4)"
    by (simp add: evaluateImageJSON_def env_classify_fails_def Let_def)
  have crop: "isCropSpecified (Image_cfg (config ?g))" by simp
  have r0: "var_r ?g = \<lparr>Min_X = 0, Min_Y = 0, Max_X = 600, Max_Y = 400\<rparr>"
    by simp
  note A = failed_step_aborts_cycle [where w = env_token_fails and g = ?g and forceNotify = True,
             THEN conjunct1, rule_format, OF a]
  note B = failed_step_aborts_cycle [where w = env_fetch_fails and g = ?g and forceNotify = True,
             THEN conjunct2, THEN conjunct1, rule_format, OF conjI [OF b1 b2]]
  note C = failed_step_aborts_cycle [where w = env_crop_fails and g = ?g and forceNotify = True,
             THEN conjunct2, THEN conjunct2, THEN conjunct1, rule_format,
             OF conjI [OF c1 conjI [OF c2 conjI [OF crop c3]]]]
  note D = failed_step_aborts_cycle [where w = env_classify_fails and g = ?g and forceNotify = True,
             THEN conjunct2, THEN conjunct2, THEN conjunct2, THEN conjunct1, rule_format,
             OF conjI [OF d1 conjI [OF d2 conjI [OF d3 d4]]]]
  have D3: "calls ?g3 = [Call_getGoogleToken, Call_fetchImage, Call_cropImage (var_r ?g)]"
    by simp
  have D4: "lastNotificationSent g4 = zeroTime" "trace g4 \<noteq> []"
    using evaluateImageJSON_rel(4) [OF d4] D [THEN conjunct2] by (auto simp: calls_def)
  show ?thesis
    unfolding Let_def
    using A B C D D3 D4 by (simp add: r0)
qed

section \<open>Notification dispatcher: failing channels\<close>

lemma env_channels_fail_simps [simp]:
  "time_Now (env_channels_fail resp) = (\<lambda>n. at_minute (int n))"
  "base64_EncodeToString (env_channels_fail resp) = (\<lambda>b. ''/9j/'')"
  "json_Marshal_webHookBody (env_channels_fail resp) = (\<lambda>b. Inr [])"
  "http_NewRequest (env_channels_fail resp) = (\<lambda>m url. None)"
  "client_Do (env_channels_fail resp) =
     (\<lambda>n req. if req_URL req = ''http://www.example.com/test''
               then Inl ''Post http://www.example.com/test: connection refused''
               else Inr \<lparr>Status = ''200 OK'', resp_Body = []\<rparr>)"
  "smtp_DialAndSend (env_channels_fail resp) = (\<lambda>n d m. Some ''dial tcp: i/o timeout'')"
  by (simp_all add: env_channels_fail_def)

lemma at_minute_after_mute: "Time_After (at_minute 0) (Time_Add zeroTime (60 * Minute))"
  by (simp add: Time_After_def Time_Add_def at_minute_def zeroTime_def Minute_def)

lemma env_channels_fail_more [simp]:
  "exec_CombinedOutput (env_channels_fail resp) = (\<lambda>n authFile. (''ya29.token '', None))"
  "strings_TrimSpace (env_channels_fail resp) = trimSpace"
  "http_Get (env_channels_fail resp) = (\<lambda>n url. Inr ([255, 216, 255], None))"
  "image_Decode (env_channels_fail resp) = (\<lambda>b. (Inr (), []))"
  "draw_SubImage (env_channels_fail resp) = (\<lambda>i r. ())"
  "jpeg_Encode (env_channels_fail resp) = (\<lambda>i. ([255, 216], None))"
  "json_Marshal_visionRequest (env_channels_fail resp) = (\<lambda>s. Inr [])"
  "json_Unmarshal_visionResponse (env_channels_fail resp) = (\<lambda>b. Inr resp)"
  "time_Format_RFC3339 (env_channels_fail resp) = (\<lambda>t. ''2019-03-01T10:00:00Z'')"
  "path_Join (env_channels_fail resp) = (\<lambda>a b. a @ b)"
  "os_Stat_IsNotExist (env_channels_fail resp) = (\<lambda>p. False)"
  by (simp_all add: env_channels_fail_def)

lemma sample_config_urls [simp]:
  "Vision_URL (Vision sample_config) \<noteq> ''http://www.example.com/test''"
  by (simp add: sample_config_def)

lemma sample_startup:
  assumes "\<not> os_Stat_IsNotExist w ''./''"
  shows "main_initialize w (initial_globals sample_config) = Returned sample_globals"
    and "main_startup w (initial_globals sample_config) = processImage w True sample_globals"
proof -
  show i: "main_initialize w (initial_globals sample_config) = Returned sample_globals"
    using assms
    by (simp add: main_initialize_def imageCfg_initialize_def visionCfg_initialize_def
          emailCfg_initialize_def webhookCfg_initialize_def Let_def sample_globals_def
          sample_config_def isCropSpecified_def image_Rect_def)
  show "main_startup w (initial_globals sample_config) = processImage w True sample_globals"
    by (simp add: main_startup_def i) (simp add: sample_config_def)
qed

lemma sample_steps:
  assumes "w = noon_env resp \<or> w = env_channels_fail resp"
  shows "\<exists>g1. processImage_steps w sample_globals = Inr (resp, g1) \<and>
           config g1 = sample_config \<and> buf g1 = [255, 216] \<and>
           lastNotificationSent g1 = zeroTime \<and> steps g1 = 4 \<and>
           calls g1 = [Call_getGoogleToken, Call_fetchImage,
                       Call_cropImage \<lparr>Min_X = 0, Min_Y = 0, Max_X = 600, Max_Y = 400\<rparr>,
                       Call_evaluateImageJSON ''ya29.token'']"
  using assms
  by (auto simp: processImage_steps_def getGoogleToken_def fetchImage_def cropImage_def
        evaluateImageJSON_def Let_def Now_def initial_globals_def sample_globals_def calls_def emit_def tick_def)

lemma logged_simps [simp]:
  "logged (emit e g) = logged g @ (case log_line e of Some l \<Rightarrow> [l] | None \<Rightarrow> [])"
  "logged (tick g) = logged g"
  "logged (log_Println l g) = logged g @ [l]"
  "logged (g\<lparr>lastNotificationSent := t\<rparr>) = logged g"
  "logged (g\<lparr>buf := b\<rparr>) = logged g"
  "logged (initial_globals c) = []"
  "logged sample_globals = []"
  by (simp_all add: logged_def List.map_filter_def emit_def tick_def log_Println_def
        initial_globals_def sample_globals_def split: option.splits)

lemma sample_steps_logged:
  assumes "w = noon_env resp \<or> w = env_channels_fail resp"
  shows "\<exists>g1. processImage_steps w sample_globals = Inr (resp, g1) \<and>
           config g1 = sample_config \<and> buf g1 = [255, 216] \<and>
           lastNotificationSent g1 = zeroTime \<and> steps g1 = 4 \<and> logged g1 = [] \<and>
           calls g1 = [Call_getGoogleToken, Call_fetchImage,
                       Call_cropImage \<lparr>Min_X = 0, Min_Y = 0, Max_X = 600, Max_Y = 400\<rparr>,
                       Call_evaluateImageJSON ''ya29.token'']"
  using assms
  by (auto simp: processImage_steps_def getGoogleToken_def fetchImage_def cropImage_def
        evaluateImageJSON_def Let_def Now_def initial_globals_def sample_globals_def calls_def emit_def tick_def
        logged_def List.map_filter_def)

text \<open>
  Claim C4, at the input where the code departs from it: the first cycle of the sample
  configuration. Both channels are enabled, the service reports a package and then
  another label, the SMTP server times out and the web-hook's host refuses the
  connection. The failed e-mail is logged and the web-hook is still called; the failed
  POST is not logged: \<open>sendWebHook\<close> panics, the loop never reaches the second result,
  and the process ends.
\<close>

theorem webhook_transport_error_panics:
  "(let out = main_startup (env_channels_fail [pkg80, porch]) (initial_globals sample_config)
    in out = Panicked ''Post http://www.example.com/test: connection refused'' (state_of out) \<and>
       calls (state_of out) =
         [Call_getGoogleToken, Call_fetchImage,
          Call_cropImage \<lparr>Min_X = 0, Min_Y = 0, Max_X = 600, Max_Y = 400\<rparr>,
          Call_evaluateImageJSON ''ya29.token'',
          detectedEmail, Call_sendWebHook (Score pkg80) ''package'' [255, 216]] \<and>
       logged (state_of out) =
         [Log_Result ''package'' (Score pkg80) 75, Log_Err ''dial tcp: i/o timeout''] \<and>
       last (trace (state_of out)) =
         Http_Do \<lparr>req_Method = ''POST'', req_URL = ''http://www.example.com/test'',
                  req_Header = [(''Content-Type'', ''application/json'')], req_Body = []\<rparr>)"
proof -
  let ?w = "env_channels_fail [pkg80, porch]"
  let ?g = "sample_globals"
  obtain g1 where s:
    "processImage_steps ?w ?g = Inr ([pkg80, porch], g1)"
    "config g1 = sample_config" "lastNotificationSent g1 = zeroTime" "steps g1 = 4"
    "buf g1 = [255, 216]" "logged g1 = []"
    "calls g1 = [Call_getGoogleToken, Call_fetchImage,
                 Call_cropImage \<lparr>Min_X = 0, Min_Y = 0, Max_X = 600, Max_Y = 400\<rparr>,
                 Call_evaluateImageJSON ''ya29.token'']"
    using sample_steps_logged [of ?w "[pkg80, porch]"] by auto
  have t: "Time_After (at_minute 4) (Time_Add zeroTime (60 * Minute))"
    by (simp add: Time_After_def Time_Add_def at_minute_def zeroTime_def Minute_def)
  have n: "DisplayName pkg80 = ''package''" by (simp add: pkg80_def)
  have m: "main_startup ?w (initial_globals sample_config) = processImage ?w True ?g"
    by (rule sample_startup) simp
  show ?thesis
    unfolding m
    by (simp add: processImage_def s processImage_body_def notifyForced_def notifyDetected_def
          emailResult_def sendWebHook_def Let_def Now_def porch_not_matched pkg80_matched
          t n detectedEmail_def)
qed

section \<open>Notification decision: the forced notification\<close>

lemma andThen_Returned:
  "andThen out k = Returned g' \<Longrightarrow> \<exists>g1. out = Returned g1 \<and> k g1 = Returned g'"
  by (cases out) simp_all

lemma count_list_filter: "P x \<Longrightarrow> count_list (filter P xs) x = count_list xs x"
  by (induction xs) auto

lemma count_restart_fanOut:
  "count_list (fanOut c restartEmail p b) restartEmail = (if Server (Email c) \<noteq> '''' then 1 else 0)"
  "count_list (fanOut c detectedEmail p b) restartEmail = 0"
  by (simp_all add: fanOut_def restartEmail_def detectedEmail_def)

lemma loop_restart_count:
  assumes "Server (Email (config g)) \<noteq> ''''"
      and "processImage_loop w True ps g = Returned g'"
  shows "count_list (calls g') restartEmail =
           count_list (calls g) restartEmail + length (filter (\<lambda>p. \<not> matched (config g) p) ps)"
  using assms
proof (induction ps arbitrary: g)
  case Nil
  then show ?case by simp
next
  case (Cons p ps)
  from Cons.prems(2) obtain g1 where
    b: "processImage_body w True p g = Returned g1" and
    l: "processImage_loop w True ps g1 = Returned g'"
    by (auto dest: andThen_Returned)
  have c: "config g1 = config g"
    using processImage_body_frame(1) [of w True p g] b by simp
  have k: "calls g1 = calls g @
     (if matched (config g) p
      then (if Time_After (time_Now w (steps g)) (muteEnd g)
            then fanOut (config g) detectedEmail p (buf g) else [])
      else fanOut (config g) restartEmail p (buf g))"
    using processImage_body_calls [of w True p g] b by simp
  have "count_list (calls g') restartEmail =
          count_list (calls g1) restartEmail + length (filter (\<lambda>p. \<not> matched (config g1) p) ps)"
    using Cons.IH [OF _ l] Cons.prems(1) c by simp
  then show ?case
    using Cons.prems(1) by (simp add: k c count_restart_fanOut)
qed

lemma steps_success:
  assumes "processImage_steps w g = Inr (resp, g')"
  shows "lastNotificationSent g' = lastNotificationSent g \<and> config g' = config g \<and>
         filter is_dispatch (calls g') = filter is_dispatch (calls g)"
proof -
  obtain r1 g1 where t: "getGoogleToken w g = (r1, g1)" by (cases "getGoogleToken w g") auto
  obtain r2 g2 where f: "fetchImage w g1 = (r2, g2)" by (cases "fetchImage w g1") auto
  obtain r3 g3 where c:
    "(if isCropSpecified (Image_cfg (config g2)) then cropImage w (var_r g2) g2 else (None, g2))
       = (r3, g3)"
    by (cases "if isCropSpecified (Image_cfg (config g2)) then cropImage w (var_r g2) g2
               else (None, g2)") auto
  obtain r4 g4 where e: "evaluateImageJSON w (fst r1) g3 = (r4, g4)"
    by (cases "evaluateImageJSON w (fst r1) g3") auto
  note T = getGoogleToken_rel [OF t]
  note F = fetchImage_rel [OF f]
  note E = evaluateImageJSON_rel [OF e]
  have C: "config g3 = config g2" "lastNotificationSent g3 = lastNotificationSent g2"
    "filter is_dispatch (calls g3) = filter is_dispatch (calls g2)"
    using c by (auto split: if_splits dest: cropImage_rel)
  show ?thesis
    using assms t f c e T(1,4,6) F(1,3,5) C E(1,4,5)
    by (cases r1; cases r4) (auto simp: processImage_steps_def split: option.splits)
qed

lemma loop_forced_calls:
  assumes "\<forall>p\<in>set ps. \<not> matched (config g) p"
      and "processImage_loop w True ps g = Returned g'"
  shows "calls g' = calls g @ concat (map (\<lambda>p. fanOut (config g) restartEmail p (buf g)) ps)"
  using assms
proof (induction ps arbitrary: g)
  case Nil
  then show ?case by simp
next
  case (Cons p ps)
  from Cons.prems(2) obtain g1 where
    b: "processImage_body w True p g = Returned g1" and
    l: "processImage_loop w True ps g1 = Returned g'"
    by (auto dest: andThen_Returned)
  have c: "config g1 = config g" "buf g1 = buf g"
    using processImage_body_frame(1,3) [of w True p g] b by simp_all
  have k: "calls g1 = calls g @ fanOut (config g) restartEmail p (buf g)"
    using processImage_body_calls [of w True p g] b Cons.prems(1) by simp
  have "calls g' = calls g1 @ concat (map (\<lambda>p. fanOut (config g1) restartEmail p (buf g1)) ps)"
    using Cons.IH [OF _ l] Cons.prems(1) c by simp
  then show ?case
    by (simp add: k c)
qed

text \<open>
  Claim C3, amended. In a cycle run with \<open>forceNotify\<close> whose four steps succeed with a
  non-empty list of results and whose loop returns, the forced notification is produced
  once for each result that does not match. With the e-mail channel enabled the restart
  e-mail is sent as many times as the list has results with another label or a confidence
  not above the threshold; and when no result matches, the calls of the dispatcher are
  the fan-out of the restart, to every enabled channel, for each result in turn.
\<close>

theorem forced_restart_per_result:
  assumes "processImage_steps w g = Inr (resp, g1)"
      and "resp \<noteq> []"
      and "processImage w True g = Returned g'"
  shows "(Server (Email (config g)) \<noteq> '''' \<longrightarrow>
            count_list (calls g') restartEmail =
              count_list (calls g) restartEmail +
              length (filter (\<lambda>p. \<not> matched (config g) p) resp)) \<and>
         ((\<forall>p\<in>set resp. \<not> matched (config g) p) \<longrightarrow>
            calls g' = calls g1 @
              concat (map (\<lambda>p. fanOut (config g) restartEmail p (buf g1)) resp))"
proof -
  have s: "config g1 = config g" "filter is_dispatch (calls g1) = filter is_dispatch (calls g)"
    using steps_success [OF assms(1)] by simp_all
  have d: "is_dispatch restartEmail" by (simp add: restartEmail_def)
  have c: "count_list (calls g1) restartEmail = count_list (calls g) restartEmail"
    using count_list_filter [of is_dispatch restartEmail, OF d] s(2) by metis
  have l: "processImage_loop w True resp g1 = Returned g'"
    using assms(1,3) by (simp add: processImage_def)
  show ?thesis
    using loop_restart_count [of g1 w resp g'] loop_forced_calls [of resp g1 w g'] l c s(1)
    by simp
qed

text \<open>
  The claim as stated fails: at the start of the sample configuration, which has
  \<^verbatim>\<open>notifyonstart: true\<close>, two results, neither a match, give two restart e-mails in
  the one cycle.
\<close>

theorem forced_restart_counterexample:
  "NotifyOnStart (Run sample_config) \<and>
   count_list (calls (state_of (main_startup (noon_env [porch, pkg75])
                                  (initial_globals sample_config)))) restartEmail = 2"
proof -
  obtain g1 where s:
    "processImage_steps (noon_env [porch, pkg75]) sample_globals
       = Inr ([porch, pkg75], g1)"
    "config g1 = sample_config"
    "calls g1 = [Call_getGoogleToken, Call_fetchImage,
                 Call_cropImage \<lparr>Min_X = 0, Min_Y = 0, Max_X = 600, Max_Y = 400\<rparr>,
                 Call_evaluateImageJSON ''ya29.token'']"
    using sample_steps [of "noon_env [porch, pkg75]" "[porch, pkg75]"] by auto
  have m: "main_startup (noon_env [porch, pkg75]) (initial_globals sample_config) =
             processImage (noon_env [porch, pkg75]) True sample_globals"
    by (rule sample_startup) simp
  have n: "NotifyOnStart (Run sample_config)"
    by (simp add: sample_config_def)
  show ?thesis
    unfolding m using n
    by (simp add: processImage_def s processImage_body_def notifyForced_def emailResult_def
          sendWebHook_def Let_def porch_not_matched pkg75_not_matched restartEmail_def)
qed

theorem forced_restart_per_result_witness:
  "(let out = processImage (noon_env [porch, pkg80, pkg75]) True sample_globals
    in out = Returned (state_of out) \<and>
       count_list (calls (state_of out)) restartEmail = 2 \<and>
       count_list (calls (state_of out)) detectedEmail = 1) \<and>
   (let out = processImage (noon_env [porch]) True sample_globals
    in out = Returned (state_of out) \<and>
       calls (state_of out) =
         [Call_getGoogleToken, Call_fetchImage,
          Call_cropImage \<lparr>Min_X = 0, Min_Y = 0, Max_X = 600, Max_Y = 400\<rparr>,
          Call_evaluateImageJSON ''ya29.token'',
          restartEmail, Call_sendWebHook (Score porch) ''porch'' [255, 216]])"
proof -
  let ?w = "noon_env [porch, pkg80, pkg75]"
  let ?v = "noon_env [porch]"
  let ?g = "sample_globals"
  obtain g1 where s:
    "processImage_steps ?w ?g = Inr ([porch, pkg80, pkg75], g1)"
    "config g1 = sample_config" "lastNotificationSent g1 = zeroTime" "steps g1 = 4"
    "calls g1 = [Call_getGoogleToken, Call_fetchImage,
                 Call_cropImage \<lparr>Min_X = 0, Min_Y = 0, Max_X = 600, Max_Y = 400\<rparr>,
                 Call_evaluateImageJSON ''ya29.token'']"
    using sample_steps [of ?w "[porch, pkg80, pkg75]"] by auto
  obtain g2 where u:
    "processImage_steps ?v ?g = Inr ([porch], g2)"
    "config g2 = sample_config" "buf g2 = [255, 216]"
    "calls g2 = [Call_getGoogleToken, Call_fetchImage,
                 Call_cropImage \<lparr>Min_X = 0, Min_Y = 0, Max_X = 600, Max_Y = 400\<rparr>,
                 Call_evaluateImageJSON ''ya29.token'']"
    using sample_steps [of ?v "[porch]"] by auto
  have t: "Time_After (at_minute 6) (Time_Add zeroTime (60 * Minute))"
    by (simp add: Time_After_def Time_Add_def at_minute_def zeroTime_def Minute_def)
  have r: "processImage ?w True ?g = Returned (state_of (processImage ?w True ?g))"
    by (simp add: processImage_def s processImage_body_def notifyForced_def notifyDetected_def
          emailResult_def sendWebHook_def Let_def Now_def porch_not_matched pkg80_matched
          pkg75_not_matched t)
  have r2: "processImage ?v True ?g = Returned (state_of (processImage ?v True ?g))"
    by (simp add: processImage_def u processImage_body_def notifyForced_def
          emailResult_def sendWebHook_def Let_def porch_not_matched)
  have d: "count_list (calls (state_of (processImage ?w True ?g))) detectedEmail = 1"
    by (simp add: processImage_def s processImage_body_def notifyForced_def notifyDetected_def
          emailResult_def sendWebHook_def Let_def Now_def porch_not_matched pkg80_matched
          pkg75_not_matched t restartEmail_def detectedEmail_def)
  have n: "length (filter (\<lambda>p. \<not> matched (config ?g) p) [porch, pkg80, pkg75]) = 2"
    by (simp add: porch_not_matched pkg80_matched pkg75_not_matched)
  have a: "count_list (calls (state_of (processImage ?w True ?g))) restartEmail = 2"
    using forced_restart_per_result [OF s(1) _ r] n by simp
  have p: "DisplayName porch = ''porch''" by (simp add: porch_def)
  have b: "calls (state_of (processImage ?v True ?g)) =
             calls g2 @ [restartEmail, Call_sendWebHook (Score porch) ''porch'' [255, 216]]"
    using forced_restart_per_result [OF u(1) _ r2] porch_not_matched
    by (simp add: u fanOut_def p)
  show ?thesis
    unfolding Let_def using r d a r2 b by (simp add: u)
qed

section \<open>Initialisation: value receivers\<close>

lemma imageCfg_initialize_frame:
  "config (state_of (imageCfg_initialize w i g)) = config g"
  "buf (state_of (imageCfg_initialize w i g)) = buf g"
  "lastNotificationSent (state_of (imageCfg_initialize w i g)) = lastNotificationSent g"
  "var_r (state_of (imageCfg_initialize w i g)) = var_r g \<or>
   var_r (state_of (imageCfg_initialize w i g)) =
     image_Rect (X1 (Rect i)) (Y1 (Rect i)) (X2 (Rect i)) (Y2 (Rect i))"
  by (simp_all add: imageCfg_initialize_def Let_def)

lemma visionCfg_initialize_frame:
  "config (state_of (visionCfg_initialize v g)) = config g"
  "buf (state_of (visionCfg_initialize v g)) = buf g"
  "lastNotificationSent (state_of (visionCfg_initialize v g)) = lastNotificationSent g"
  "var_r (state_of (visionCfg_initialize v g)) = var_r g"
  by (simp_all add: visionCfg_initialize_def)

lemma emailCfg_initialize_id: "emailCfg_initialize e g = Returned g"
  by (simp add: emailCfg_initialize_def Let_def)

lemma state_of_andThen:
  assumes "\<And>g1. P g1 \<Longrightarrow> P (state_of (k g1))" "P (state_of out)"
  shows "P (state_of (andThen out k))"
  using assms by (cases out) simp_all

text \<open>
  Claim C9. However the four \<open>initialize\<close> calls of \<open>main\<close> end, the configuration is
  the one loaded: the port and the cache file keep their values, and so does every other
  field. Of the package-level variables only the crop rectangle \<open>r\<close> may change, to the
  rectangle of the configuration. \<open>emailCfg.initialize\<close> and \<open>webhookCfg.initialize\<close>
  change nothing at all.
\<close>

theorem initialize_keeps_config:
  "(let g' = state_of (main_initialize w g)
    in config g' = config g \<and>
       Port (Email (config g')) = Port (Email (config g)) \<and>
       CacheFile (Image_cfg (config g')) = CacheFile (Image_cfg (config g)) \<and>
       buf g' = buf g \<and>
       lastNotificationSent g' = lastNotificationSent g \<and>
       (var_r g' = var_r g \<or>
        var_r g' = image_Rect (X1 (Rect (Image_cfg (config g)))) (Y1 (Rect (Image_cfg (config g))))
                     (X2 (Rect (Image_cfg (config g)))) (Y2 (Rect (Image_cfg (config g)))))) \<and>
   emailCfg_initialize e g = Returned g \<and>
   webhookCfg_initialize h g = Returned g \<and>
   config (state_of (imageCfg_initialize w i g)) = config g"
proof -
  let ?P = "\<lambda>g'. config g' = config g \<and> buf g' = buf g \<and>
              lastNotificationSent g' = lastNotificationSent g \<and>
              (var_r g' = var_r g \<or>
               var_r g' = image_Rect (X1 (Rect (Image_cfg (config g))))
                            (Y1 (Rect (Image_cfg (config g))))
                            (X2 (Rect (Image_cfg (config g)))) (Y2 (Rect (Image_cfg (config g)))))"
  have 1: "?P (state_of (imageCfg_initialize w (Image_cfg (config g)) g))"
    using imageCfg_initialize_frame [of w "Image_cfg (config g)" g] by simp
  have 2: "?P g1 \<Longrightarrow> ?P (state_of (visionCfg_initialize v g1))" for g1 v
    by (simp add: visionCfg_initialize_frame)
  have 3: "?P g1 \<Longrightarrow> ?P (state_of (emailCfg_initialize e1 g1))" for g1 e1
    by (simp add: emailCfg_initialize_id)
  have 4: "?P g1 \<Longrightarrow> ?P (state_of (webhookCfg_initialize h1 g1))" for g1 h1
    by (simp add: webhookCfg_initialize_def)
  have "?P (state_of (main_initialize w g))"
    unfolding main_initialize_def
    by (intro state_of_andThen [where P = ?P] 1 2 3 4)
  then show ?thesis
    by (simp add: Let_def emailCfg_initialize_id webhookCfg_initialize_def
          imageCfg_initialize_frame)
qed

theorem initialize_keeps_config_witness:
  "(let out = main_initialize (noon_env [pkg80]) (initial_globals bare_config)
    in out = Returned (state_of out) \<and>
       Port (Email (config (state_of out))) = 0 \<and>
       CacheFile (Image_cfg (config (state_of out))) = '''' \<and>
       config (state_of out) = bare_config \<and>
       var_r (state_of out) = \<lparr>Min_X = 0, Min_Y = 0, Max_X = 600, Max_Y = 400\<rparr>)"
proof -
  let ?w = "noon_env [pkg80]"
  let ?g = "initial_globals bare_config"
  have r: "main_initialize ?w ?g = Returned (state_of (main_initialize ?w ?g))"
    by (simp add: main_initialize_def imageCfg_initialize_def visionCfg_initialize_def
          emailCfg_initialize_def webhookCfg_initialize_def Let_def bare_config_def
          sample_config_def isCropSpecified_def)
  have v: "var_r (state_of (main_initialize ?w ?g)) =
             \<lparr>Min_X = 0, Min_Y = 0, Max_X = 600, Max_Y = 400\<rparr>"
    by (simp add: main_initialize_def imageCfg_initialize_def visionCfg_initialize_def
          emailCfg_initialize_def webhookCfg_initialize_def Let_def bare_config_def
          sample_config_def isCropSpecified_def image_Rect_def)
  have b: "Port (Email bare_config) = 0" "CacheFile (Image_cfg bare_config) = ''''"
    by (simp_all add: bare_config_def)
  show ?thesis
    unfolding Let_def
    using initialize_keeps_config [of ?w ?g] r v b by (simp add: Let_def)
qed

section \<open>Detection pipeline: the crop rectangle\<close>

text \<open>
  Claim C6, amended. The rectangle with four zero coordinates is no crop, and so is every
  rectangle without a positive coordinate: \<open>isCropSpecified\<close> holds if and only if some
  coordinate is greater than zero. After a successful fetch the pipeline crops to \<open>r\<close>
  before the classification exactly when \<open>isCropSpecified\<close> holds; when it does not, the
  classification runs on the state whose \<open>buf\<close> is the body fetched.
\<close>

theorem crop_iff_positive_coordinate:
  "(Rect i = \<lparr>X1 = 0, Y1 = 0, X2 = 0, Y2 = 0\<rparr> \<longrightarrow> \<not> isCropSpecified i) \<and>
   (isCropSpecified i \<longleftrightarrow>
      \<not> (X1 (Rect i) \<le> 0 \<and> Y1 (Rect i) \<le> 0 \<and> X2 (Rect i) \<le> 0 \<and> Y2 (Rect i) \<le> 0)) \<and>
   (getGoogleToken w g = ((token, None), g1) \<and>
    http_Get w (steps g1) (Image_URL (Image_cfg (config g))) = Inr (body, None) \<longrightarrow>
      (\<exists>g2. fetchImage w g1 = (None, g2) \<and> buf g2 = body \<and>
            calls g2 = calls g @ [Call_getGoogleToken, Call_fetchImage] \<and>
            processImage_steps w g =
              (case (if isCropSpecified (Image_cfg (config g))
                     then cropImage w (var_r g) g2 else (None, g2)) of
                 (Some err, g3) \<Rightarrow> Inl (log_Println (Log_CropFailed err) g3)
               | (None, g3) \<Rightarrow>
                   (case evaluateImageJSON w token g3 of
                      (Inl err, g4) \<Rightarrow> Inl (log_Println (Log_EvalError err) g4)
                    | (Inr resp, g4) \<Rightarrow> Inr (resp, g4))) \<and>
            (\<not> isCropSpecified (Image_cfg (config g)) \<longrightarrow>
               processImage_steps w g =
                 (case evaluateImageJSON w token g2 of
                    (Inl err, g4) \<Rightarrow> Inl (log_Println (Log_EvalError err) g4)
                  | (Inr resp, g4) \<Rightarrow> Inr (resp, g4)))))"
proof -
  have 3: "\<exists>g2. fetchImage w g1 = (None, g2) \<and> buf g2 = body \<and>
            calls g2 = calls g @ [Call_getGoogleToken, Call_fetchImage] \<and>
            processImage_steps w g =
              (case (if isCropSpecified (Image_cfg (config g))
                     then cropImage w (var_r g) g2 else (None, g2)) of
                 (Some err, g3) \<Rightarrow> Inl (log_Println (Log_CropFailed err) g3)
               | (None, g3) \<Rightarrow>
                   (case evaluateImageJSON w token g3 of
                      (Inl err, g4) \<Rightarrow> Inl (log_Println (Log_EvalError err) g4)
                    | (Inr resp, g4) \<Rightarrow> Inr (resp, g4))) \<and>
            (\<not> isCropSpecified (Image_cfg (config g)) \<longrightarrow>
               processImage_steps w g =
                 (case evaluateImageJSON w token g2 of
                    (Inl err, g4) \<Rightarrow> Inl (log_Println (Log_EvalError err) g4)
                  | (Inr resp, g4) \<Rightarrow> Inr (resp, g4)))"
    if t: "getGoogleToken w g = ((token, None), g1)"
      and h: "http_Get w (steps g1) (Image_URL (Image_cfg (config g))) = Inr (body, None)"
  proof -
    note T = getGoogleToken_rel [OF t]
    have "http_Get w (steps g1) (Image_URL (Image_cfg (config g1))) = Inr (body, None)"
      using h T(1) by simp
    from fetchImage_buf [OF this]
    obtain g2 where f: "fetchImage w g1 = (None, g2)" "buf g2 = body"
      by blast
    note F = fetchImage_rel [OF f(1)]
    show ?thesis
      using t f T(1,2,6) F(1,2,5)
      by (intro exI [of _ g2]) (simp add: processImage_steps_def)
  qed
  show ?thesis
    using 3 by (auto simp: isCropSpecified_def)
qed

text \<open>
  The claim as stated fails: the rectangle \<open>(-1, 0, 0, 0)\<close> has a non-zero coordinate
  and the image is classified as fetched.
\<close>

theorem crop_nonzero_counterexample:
  "X1 (Rect (Image_cfg negative_rect_config)) \<noteq> 0 \<and>
   \<not> isCropSpecified (Image_cfg negative_rect_config) \<and>
   calls (state_of (processImage (noon_env [porch]) False (initial_globals negative_rect_config))) =
     [Call_getGoogleToken, Call_fetchImage, Call_evaluateImageJSON ''ya29.token''] \<and>
   buf (state_of (processImage (noon_env [porch]) False (initial_globals negative_rect_config))) =
     [255, 216, 255]"
proof -
  have m: "\<not> matched negative_rect_config porch"
    by (rule porch_never_matched) (simp add: negative_rect_config_def)
  have c: "\<not> isCropSpecified (Image_cfg negative_rect_config)"
          "X1 (Rect (Image_cfg negative_rect_config)) \<noteq> 0"
          "ArchivePath (Image_cfg negative_rect_config) = ''./''"
    by (simp_all add: negative_rect_config_def isCropSpecified_def)
  show ?thesis
    by (simp add: processImage_def processImage_steps_def getGoogleToken_def fetchImage_def
          evaluateImageJSON_def Let_def Now_def processImage_body_def m c)
qed

theorem crop_iff_positive_coordinate_witness:
  "\<not> isCropSpecified (Image_cfg uncropped_config) \<and>
   isCropSpecified (Image_cfg sample_config) \<and>
   calls (state_of (processImage (noon_env [porch]) False (initial_globals uncropped_config))) =
     [Call_getGoogleToken, Call_fetchImage, Call_evaluateImageJSON ''ya29.token''] \<and>
   buf (state_of (processImage (noon_env [porch]) False (initial_globals uncropped_config))) =
     [255, 216, 255] \<and>
   calls (state_of (processImage (noon_env [porch]) False sample_globals)) =
     [Call_getGoogleToken, Call_fetchImage,
      Call_cropImage \<lparr>Min_X = 0, Min_Y = 0, Max_X = 600, Max_Y = 400\<rparr>,
      Call_evaluateImageJSON ''ya29.token''] \<and>
   buf (state_of (processImage (noon_env [porch]) False sample_globals)) = [255, 216]"
proof -
  let ?w = "noon_env [porch]"
  let ?g = "initial_globals uncropped_config"
  let ?g1 = "tick (emit (Exec_gcloud (AuthFile (Vision (config ?g)))) (emit Call_getGoogleToken ?g))"
  have r: "Rect (Image_cfg uncropped_config) = \<lparr>X1 = 0, Y1 = 0, X2 = 0, Y2 = 0\<rparr>"
    by (simp add: uncropped_config_def)
  have t: "getGoogleToken ?w ?g = ((''ya29.token'', None), ?g1)"
    by (simp add: getGoogleToken_def Let_def)
  have h: "http_Get ?w (steps ?g1) (Image_URL (Image_cfg (config ?g))) = Inr ([255, 216, 255], None)"
    by simp
  note T = crop_iff_positive_coordinate [where i = "Image_cfg uncropped_config" and w = ?w
             and g = ?g and token = "''ya29.token''" and ?g1.0 = ?g1 and body = "[255, 216, 255]"]
  have n: "\<not> isCropSpecified (Image_cfg uncropped_config)"
    using T [THEN conjunct1] r by simp
  obtain g2 where g2: "buf g2 = [255, 216, 255]"
    "calls g2 = calls ?g @ [Call_getGoogleToken, Call_fetchImage]"
    "processImage_steps ?w ?g =
       (case evaluateImageJSON ?w ''ya29.token'' g2 of
          (Inl err, g4) \<Rightarrow> Inl (log_Println (Log_EvalError err) g4)
        | (Inr resp, g4) \<Rightarrow> Inr (resp, g4))"
    using T [THEN conjunct2, THEN conjunct2] t h n by auto
  obtain r4 g4 where e: "evaluateImageJSON ?w ''ya29.token'' g2 = (r4, g4)"
    by (cases "evaluateImageJSON ?w ''ya29.token'' g2") auto
  have r4: "r4 = Inr [porch]"
    using e by (auto simp: evaluateImageJSON_def Let_def Now_def split: if_splits)
  note E = evaluateImageJSON_rel [OF e]
  have cfg: "config g4 = uncropped_config"
    using E(1) g2(3) e r4 steps_success [of ?w ?g "[porch]" g4] by simp
  have m: "\<not> matched uncropped_config porch" "\<not> matched sample_config porch"
    by (rule porch_never_matched, simp add: uncropped_config_def)+
  have u: "calls (state_of (processImage ?w False ?g)) =
             [Call_getGoogleToken, Call_fetchImage, Call_evaluateImageJSON ''ya29.token'']"
          "buf (state_of (processImage ?w False ?g)) = [255, 216, 255]"
    using g2 e r4 E(3,5) cfg m
    by (simp_all add: processImage_def processImage_body_def Let_def)
  obtain g5 where s: "processImage_steps ?w sample_globals = Inr ([porch], g5)"
    "config g5 = sample_config" "buf g5 = [255, 216]"
    "calls g5 = [Call_getGoogleToken, Call_fetchImage,
                 Call_cropImage \<lparr>Min_X = 0, Min_Y = 0, Max_X = 600, Max_Y = 400\<rparr>,
                 Call_evaluateImageJSON ''ya29.token'']"
    using sample_steps [of ?w "[porch]"] by auto
  have c: "calls (state_of (processImage ?w False sample_globals)) =
             [Call_getGoogleToken, Call_fetchImage,
              Call_cropImage \<lparr>Min_X = 0, Min_Y = 0, Max_X = 600, Max_Y = 400\<rparr>,
              Call_evaluateImageJSON ''ya29.token'']"
          "buf (state_of (processImage ?w False sample_globals)) = [255, 216]"
    using s m by (simp_all add: processImage_def processImage_body_def Let_def)
  show ?thesis
    using n u c by simp
qed

section \<open>The loop of processImage up to one result\<close>

lemma andThen_assoc:
  "andThen (andThen out k1) k2 = andThen out (\<lambda>g. andThen (k1 g) k2)"
  by (cases out) simp_all

lemma andThen_loop_Nil: "andThen out (processImage_loop w f []) = out"
  by (cases out) simp_all

lemma loop_append:
  "processImage_loop w f (xs @ ys) g =
     andThen (processImage_loop w f xs g) (processImage_loop w f ys)"
proof (induction xs arbitrary: g)
  case Nil
  then show ?case by simp
next
  case (Cons x xs)
  have "processImage_loop w f (xs @ ys) =
          (\<lambda>g. andThen (processImage_loop w f xs g) (processImage_loop w f ys))"
    by (rule ext) (rule Cons.IH)
  then show ?case by (simp add: andThen_assoc)
qed

lemma loop_frame:
  "config (state_of (processImage_loop w f ps g)) = config g"
  "var_r (state_of (processImage_loop w f ps g)) = var_r g"
  "buf (state_of (processImage_loop w f ps g)) = buf g"
proof (induction ps arbitrary: g)
  case Nil
  { case 1 show ?case by simp }
  { case 2 show ?case by simp }
  { case 3 show ?case by simp }
next
  case (Cons p ps)
  { case 1 show ?case
      using Cons(1) processImage_body_frame(1) [of w f p g]
      by (cases "processImage_body w f p g") simp_all }
  { case 2 show ?case
      using Cons(2) processImage_body_frame(2) [of w f p g]
      by (cases "processImage_body w f p g") simp_all }
  { case 3 show ?case
      using Cons(3) processImage_body_frame(3) [of w f p g]
      by (cases "processImage_body w f p g") simp_all }
qed

lemma processImage_reach:
  assumes "processImage_steps w g = Inr (pre @ p # post, g1)"
      and "processImage_loop w f pre g1 = Returned g2"
  shows "processImage w f g =
           andThen (processImage_loop w f (pre @ [p]) g1) (processImage_loop w f post)"
    and "processImage_loop w f (pre @ [p]) g1 = processImage_body w f p g2"
    and "config g2 = config g" and "buf g2 = buf g1"
proof -
  have "processImage w f g = processImage_loop w f ((pre @ [p]) @ post) g1"
    using assms(1) by (simp add: processImage_def)
  then show "processImage w f g =
           andThen (processImage_loop w f (pre @ [p]) g1) (processImage_loop w f post)"
    by (simp only: loop_append)
  show "processImage_loop w f (pre @ [p]) g1 = processImage_body w f p g2"
    by (simp add: loop_append assms(2) andThen_loop_Nil)
  have "config g2 = config g1" "buf g2 = buf g1"
    using loop_frame(1,3) [of w f pre g1] assms(2) by simp_all
  then show "config g2 = config g" "buf g2 = buf g1"
    using steps_success [OF assms(1)] by simp_all
qed

lemma writes_and_calls_simps [simp]:
  "writes_and_calls (emit e g) =
     writes_and_calls g @ (if is_call e \<or> assigned e \<noteq> None then [e] else [])"
  "writes_and_calls (tick g) = writes_and_calls g"
  "writes_and_calls (log_Println l g) = writes_and_calls g"
  "writes_and_calls (g\<lparr>lastNotificationSent := t\<rparr>) = writes_and_calls g"
  "writes_and_calls (g\<lparr>buf := b\<rparr>) = writes_and_calls g"
  by (simp_all add: writes_and_calls_def)





lemma assigned_fanOut [simp]:
  "List.map_filter assigned (fanOut c detectedEmail p b) = []"
  "List.map_filter assigned (fanOut c restartEmail p b) = []"
  by (simp_all add: fanOut_def detectedEmail_def restartEmail_def List.map_filter_def)





lemma env_smtp_fails_simps [simp]:
  "time_Now (env_smtp_fails resp) = (\<lambda>n. at_minute (int n))"
  "exec_CombinedOutput (env_smtp_fails resp) = (\<lambda>n authFile. (''ya29.token '', None))"
  "strings_TrimSpace (env_smtp_fails resp) = trimSpace"
  "http_Get (env_smtp_fails resp) = (\<lambda>n url. Inr ([255, 216, 255], None))"
  "image_Decode (env_smtp_fails resp) = (\<lambda>b. (Inr (), []))"
  "draw_SubImage (env_smtp_fails resp) = (\<lambda>i r. ())"
  "jpeg_Encode (env_smtp_fails resp) = (\<lambda>i. ([255, 216], None))"
  "base64_EncodeToString (env_smtp_fails resp) = (\<lambda>b. ''/9j/'')"
  "json_Marshal_visionRequest (env_smtp_fails resp) = (\<lambda>s. Inr [])"
  "json_Marshal_webHookBody (env_smtp_fails resp) = (\<lambda>b. Inr [])"
  "json_Unmarshal_visionResponse (env_smtp_fails resp) = (\<lambda>b. Inr resp)"
  "http_NewRequest (env_smtp_fails resp) = (\<lambda>m url. None)"
  "client_Do (env_smtp_fails resp) = (\<lambda>n req. Inr \<lparr>Status = ''200 OK'', resp_Body = []\<rparr>)"
  "time_Format_RFC3339 (env_smtp_fails resp) = (\<lambda>t. ''2019-03-01T10:00:00Z'')"
  "path_Join (env_smtp_fails resp) = (\<lambda>a b. a @ b)"
  "smtp_DialAndSend (env_smtp_fails resp) = (\<lambda>n d m. Some ''dial tcp: i/o timeout'')"
  by (simp_all add: env_smtp_fails_def)

lemma sample_pipeline:
  assumes "w = sample_env clock resp \<or> w = env_channels_fail resp \<or> w = env_smtp_fails resp"
      and "Image_cfg (config g) = Image_cfg sample_config"
      and "Vision_URL (Vision (config g)) = Vision_URL (Vision sample_config)"
  shows "\<exists>g1. processImage_steps w g = Inr (resp, g1) \<and>
           config g1 = config g \<and> buf g1 = [255, 216] \<and>
           var_r g1 = var_r g \<and>
           lastNotificationSent g1 = lastNotificationSent g \<and> steps g1 = steps g + 4 \<and>
           logged g1 = logged g \<and>
           calls g1 = calls g @ [Call_getGoogleToken, Call_fetchImage,
                                 Call_cropImage (var_r g), Call_evaluateImageJSON ''ya29.token''] \<and>
           writes_and_calls g1 =
             writes_and_calls g @ [Call_getGoogleToken, Call_fetchImage,
                                   Call_cropImage (var_r g), Call_evaluateImageJSON ''ya29.token'']"
  using assms
  by (auto simp: processImage_steps_def getGoogleToken_def fetchImage_def cropImage_def
        evaluateImageJSON_def Let_def Now_def)

section \<open>Rounding to float64\<close>

lemma pow2_powi: "pow2 k = 2 powi k"
proof (cases "0 \<le> k")
  case True
  then show ?thesis by (simp add: pow2_def power_int_def)
next
  case False
  then have "pow2 k = 1 / 2 ^ nat (- k)" by (simp add: pow2_def)
  also have "\<dots> = inverse 2 ^ nat (- k)" by (simp add: power_one_over inverse_eq_divide)
  also have "\<dots> = 2 powi k" using False by (simp only: power_int_def if_False)
  finally show ?thesis .
qed

lemma pow2_pos: "0 < pow2 k"
  by (simp add: pow2_powi)

lemma pow2_add: "pow2 (a + b) = pow2 a * pow2 b"
  by (simp add: pow2_powi power_int_add)

lemma pow2_mono: "a \<le> b \<Longrightarrow> pow2 a \<le> pow2 b"
  by (simp add: pow2_powi power_int_increasing)

lemma pow2_less_exp: "pow2 a < pow2 b \<Longrightarrow> a < b"
  using pow2_mono [of b a] by (cases "a < b") simp_all

lemma pow2_nat: "0 \<le> k \<Longrightarrow> pow2 k = of_int (2 ^ nat k)"
  by (simp add: pow2_def)

lemma ilog2_bounds:
  assumes "0 < x"
  shows "pow2 (ilog2 x) \<le> x \<and> x < pow2 (ilog2 x + 1)"
proof -
  obtain a b where q: "quotient_of x = (a, b)" by (cases "quotient_of x") auto
  have b: "0 < b" using quotient_of_denom_pos [OF q] .
  have x: "x = of_int a / of_int b" using quotient_of_div [OF q] .
  have a: "0 < a" using assms b by (simp add: x zero_less_divide_iff)
  define la lb where "la = bitlen a" and "lb = bitlen b"
  have la: "1 \<le> la" "2 ^ nat (la - 1) \<le> a" "a < 2 ^ nat la"
    using bitlen_bounds [OF a] a by (auto simp: la_def bitlen_alt_def)
  have lb: "1 \<le> lb" "2 ^ nat (lb - 1) \<le> b" "b < 2 ^ nat lb"
    using bitlen_bounds [OF b] b by (auto simp: lb_def bitlen_alt_def)
  have ra: "pow2 (la - 1) \<le> of_int a" "(of_int a :: rat) < pow2 la"
  proof -
    have "(of_int (2 ^ nat (la - 1)) :: rat) \<le> of_int a" using la(2) by (simp only: of_int_le_iff)
    then show "pow2 (la - 1) \<le> of_int a" using la(1) by (simp add: pow2_nat)
    have "(of_int a :: rat) < of_int (2 ^ nat la)" using la(3) by (simp only: of_int_less_iff)
    then show "(of_int a :: rat) < pow2 la" using la(1) by (simp add: pow2_nat)
  qed
  have rb: "pow2 (lb - 1) \<le> of_int b" "(of_int b :: rat) < pow2 lb"
  proof -
    have "(of_int (2 ^ nat (lb - 1)) :: rat) \<le> of_int b" using lb(2) by (simp only: of_int_le_iff)
    then show "pow2 (lb - 1) \<le> of_int b" using lb(1) by (simp add: pow2_nat)
    have "(of_int b :: rat) < of_int (2 ^ nat lb)" using lb(3) by (simp only: of_int_less_iff)
    then show "(of_int b :: rat) < pow2 lb" using lb(1) by (simp add: pow2_nat)
  qed
  define d where "d = la - lb"
  have rb0: "(0::rat) < of_int b" using b by simp
  have lower: "pow2 (d - 1) \<le> x"
  proof -
    have "pow2 (d - 1) * of_int b \<le> pow2 (d - 1) * pow2 lb"
      using rb(2) pow2_pos [of "d - 1"] by (intro mult_left_mono) simp_all
    also have "\<dots> = pow2 (la - 1)"
      using pow2_add [of "d - 1" lb] by (simp add: d_def)
    also have "\<dots> \<le> of_int a" by (rule ra(1))
    finally show ?thesis using rb0 by (simp add: x pos_le_divide_eq)
  qed
  have upper: "x < pow2 (d + 1)"
  proof -
    have "(of_int a :: rat) < pow2 la" by (rule ra(2))
    also have "\<dots> = pow2 (d + 1) * pow2 (lb - 1)"
      using pow2_add [of "d + 1" "lb - 1"] by (simp add: d_def)
    also have "\<dots> \<le> pow2 (d + 1) * of_int b"
      using rb(1) pow2_pos [of "d + 1"] by (intro mult_left_mono) simp_all
    finally show ?thesis using rb0 by (simp add: x pos_divide_less_eq)
  qed
  have i: "ilog2 x = (if pow2 d \<le> x then d else d - 1)"
    by (simp add: ilog2_def q d_def la_def lb_def Let_def)
  show ?thesis
    using lower upper by (auto simp: i)
qed

lemma round_half_even_ge: "of_int k \<le> x \<Longrightarrow> k \<le> round_half_even x"
proof -
  assume "of_int k \<le> x"
  then have "k \<le> \<lfloor>x\<rfloor>" by (simp add: le_floor_iff)
  then show ?thesis by (simp add: round_half_even_def Let_def)
qed

lemma round_half_even_le: "x \<le> of_int k \<Longrightarrow> round_half_even x \<le> k"
proof -
  assume a: "x \<le> of_int k"
  then have f: "\<lfloor>x\<rfloor> \<le> k" by (simp add: floor_le_iff) 
  show ?thesis
  proof (cases "\<lfloor>x\<rfloor> = k")
    case True
    then have "x = of_int k" using a of_int_floor_le [of x] by simp
    then show ?thesis by (simp add: round_half_even_of_int)
  next
    case False
    then have "\<lfloor>x\<rfloor> + 1 \<le> k" using f by simp
    then show ?thesis by (simp add: round_half_even_def Let_def)
  qed
qed

lemma float64_round_unfold:
  assumes "x \<noteq> 0" "e = max (ilog2 \<bar>x\<bar>) (- 1022)"
    "n = round_half_even (x / pow2 (e - 52))"
  shows "float64_round x =
      (if 1023 < e \<or> (e = 1023 \<and> 9007199254740992 \<le> \<bar>n\<bar>)
       then (if 0 < x then PosInf else NegInf)
       else Finite (of_int n * pow2 (e - 52)))"
  unfolding float64_round_def Let_def assms(2,3) using assms(1) by simp

lemma float64_round_le_int:
  assumes "0 < x" "x \<le> of_int T" "T < 9007199254740992"
  shows "\<exists>v. float64_round x = Finite v \<and> v \<le> of_int T"
proof -
  define e where "e = max (ilog2 \<bar>x\<bar>) (- 1022)"
  define k where "k = nat (52 - e)"
  have ax: "\<bar>x\<bar> = x" using assms(1) by simp
  have "pow2 (ilog2 x) \<le> x" using ilog2_bounds [OF assms(1)] by simp
  also have "x \<le> of_int T" by (rule assms(2))
  also have "(of_int T :: rat) < of_int 9007199254740992"
    using assms(3) by (simp only: of_int_less_iff)
  also have "(of_int 9007199254740992 :: rat) = pow2 53" by (simp add: pow2_def)
  finally have "ilog2 x < 53" by (rule pow2_less_exp)
  then have e: "e \<le> 52" by (simp add: e_def ax)
  have x0: "x \<noteq> 0" using assms(1) by simp
  have q: "pow2 (e - 52) = 1 / 2 ^ k"
    using e by (cases "e = 52") (simp_all add: pow2_def k_def)
  have "x / pow2 (e - 52) = x * 2 ^ k" by (simp add: q)
  also have "\<dots> \<le> of_int T * 2 ^ k" using assms(2) by simp
  also have "\<dots> = of_int (T * 2 ^ k)" by simp
  finally have n: "round_half_even (x / pow2 (e - 52)) \<le> T * 2 ^ k"
    by (rule round_half_even_le)
  define n where "n = round_half_even (x / pow2 (e - 52))"
  have f: "float64_round x = Finite (of_int n * pow2 (e - 52))"
    using e by (simp add: float64_round_unfold [OF x0 e_def n_def])
  have "(of_int n :: rat) \<le> of_int (T * 2 ^ k)"
    using n by (simp only: of_int_le_iff n_def)
  then have "(of_int n :: rat) \<le> of_int T * 2 ^ k" by simp
  then have "(of_int n :: rat) / 2 ^ k \<le> of_int T"
    by (simp add: pos_divide_le_eq)
  then have "of_int n * pow2 (e - 52) \<le> (of_int T :: rat)"
    by (simp add: q)
  then show ?thesis using f by simp
qed

lemma float64_round_nonpos:
  assumes "x \<le> 0"
  shows "float64_round x = NegInf \<or> (\<exists>v. float64_round x = Finite v \<and> v \<le> 0)"
proof (cases "x = 0")
  case True
  then show ?thesis by (simp add: float64_round_def)
next
  case False
  then have x: "x < 0" using assms by simp
  define e where "e = max (ilog2 \<bar>x\<bar>) (- 1022)"
  define n where "n = round_half_even (x / pow2 (e - 52))"
  have "x / pow2 (e - 52) \<le> of_int 0"
    using x pow2_pos [of "e - 52"] by (simp add: divide_le_0_iff)
  then have n: "n \<le> 0" unfolding n_def by (rule round_half_even_le)
  then have "(of_int n :: rat) \<le> 0" by simp 
  then have "of_int n * pow2 (e - 52) \<le> 0"
    using pow2_pos [of "e - 52"] by (simp add: mult_le_0_iff)
  then show ?thesis
    using x by (simp add: float64_round_unfold [OF False e_def n_def])
qed

lemma float64_round_ge_grid:
  assumes "of_int M * pow2 (- 46) \<le> x" "0 < M" "M < 9007199254740992"
  shows "float64_round x = PosInf \<or>
         (\<exists>v. float64_round x = Finite v \<and> of_int M * pow2 (- 46) \<le> v)"
proof -
  define y where "y = of_int M * pow2 (- 46)"
  have M1: "(1::rat) \<le> of_int M" using assms(2) by simp
  have y1: "pow2 (- 46) \<le> y"
    using mult_right_mono [OF M1, of "pow2 (- 46)"] pow2_pos [of "- 46"] by (simp add: y_def)
  have x0: "0 < x" using assms(1) y1 pow2_pos [of "- 46"] unfolding y_def by linarith
  have ax: "\<bar>x\<bar> = x" using x0 by simp
  define e where "e = ilog2 x"
  have b: "pow2 e \<le> x" "x < pow2 (e + 1)" using ilog2_bounds [OF x0] by (simp_all add: e_def)
  have "pow2 (- 46) < pow2 (e + 1)" using y1 assms(1) b(2) by (simp add: y_def)
  then have e46: "- 46 \<le> e" using pow2_less_exp [of "- 46" "e + 1"] by simp
  then have m: "max (ilog2 \<bar>x\<bar>) (- 1022) = e" by (simp add: ax e_def)
  define n where "n = round_half_even (x / pow2 (e - 52))"
  have xn: "x \<noteq> 0" using x0 by simp
  have f: "float64_round x =
      (if 1023 < e \<or> (e = 1023 \<and> 9007199254740992 \<le> \<bar>n\<bar>) then PosInf
       else Finite (of_int n * pow2 (e - 52)))"
    using x0 by (simp add: float64_round_unfold [OF xn m [symmetric] n_def])
  have qpos: "0 < pow2 (e - 52)" by (rule pow2_pos)
  have "(of_int M :: rat) < of_int 9007199254740992"
    using assms(3) by (simp only: of_int_less_iff)
  then have "y < of_int 9007199254740992 * pow2 (- 46)"
    unfolding y_def using pow2_pos [of "- 46"] by (simp only: mult_less_cancel_right_pos)
  also have "\<dots> = pow2 7" by (simp add: pow2_def)
  finally have y7: "y < pow2 7" .
  show ?thesis
  proof (cases "e \<le> 6")
    case True
    define j where "j = nat (6 - e)"
    have "pow2 (- 46) = pow2 (6 - e) * pow2 (e - 52)"
      using pow2_add [of "6 - e" "e - 52"] by simp
    also have "pow2 (6 - e) = of_int (2 ^ j)" using True by (simp add: pow2_nat j_def)
    finally have p: "pow2 (- 46) = of_int (2 ^ j) * pow2 (e - 52)" .
    have yq: "y = of_int (M * 2 ^ j) * pow2 (e - 52)" by (simp add: y_def p)
    have "of_int (M * 2 ^ j) = y / pow2 (e - 52)" using qpos by (simp add: yq)
    also have "\<dots> \<le> x / pow2 (e - 52)"
      using assms(1) qpos by (simp add: y_def divide_right_mono)
    finally have "M * 2 ^ j \<le> n" unfolding n_def by (rule round_half_even_ge)
    then have "(of_int (M * 2 ^ j) :: rat) \<le> of_int n" by (simp only: of_int_le_iff)
    then have "y \<le> of_int n * pow2 (e - 52)"
      unfolding yq using qpos by (simp only: mult_le_cancel_right_pos)
    then show ?thesis using True by (simp add: f y_def)
  next
    case False
    then have e7: "7 \<le> e" by simp
    have "pow2 e = pow2 52 * pow2 (e - 52)" using pow2_add [of 52 "e - 52"] by simp
    then have pe: "pow2 e = of_int 4503599627370496 * pow2 (e - 52)" by (simp add: pow2_def)
    have "of_int 4503599627370496 = pow2 e / pow2 (e - 52)" using qpos by (simp add: pe)
    also have "\<dots> \<le> x / pow2 (e - 52)" using b(1) qpos by (simp add: divide_right_mono)
    finally have "4503599627370496 \<le> n" unfolding n_def by (rule round_half_even_ge)
    then have "(of_int 4503599627370496 :: rat) \<le> of_int n" by (simp only: of_int_le_iff)
    then have "pow2 e \<le> of_int n * pow2 (e - 52)"
      unfolding pe using qpos by (simp only: mult_le_cancel_right_pos)
    moreover have "pow2 7 \<le> pow2 e" using e7 by (rule pow2_mono)
    ultimately have "y \<le> of_int n * pow2 (e - 52)" using y7 by simp
    then show ?thesis by (simp add: f y_def)
  qed
qed

section \<open>Notification decision: the order of update and dispatch\<close>

lemma at_minute_4_after_mute: "Time_After (at_minute 4) (Time_Add zeroTime (60 * Minute))"
  by (simp add: Time_After_def Time_Add_def at_minute_def zeroTime_def Minute_def)

lemma sample_names [simp]:
  "DisplayName pkg80 = ''package''" "DisplayName porch = ''porch''"
  "DisplayName pkg75 = ''package''" "DisplayName pkg7501 = ''package''"
  "DisplayName pkg07 = ''package''"
  by (simp_all add: pkg80_def porch_def pkg75_def pkg7501_def pkg07_def)



section \<open>Notification decision: the mute window in a cycle\<close>

lemma example_clock_simps [simp]:
  "example_clock 4 = at_minute 0" "example_clock 5 = at_minute 0"
  "example_clock 12 = at_minute 30" "example_clock 17 = at_minute 61"
  "example_clock 18 = at_minute 61"
  by (simp_all add: example_clock_def)

lemma sample_cycle_frame:
  assumes "config g = sample_config"
  shows "config (state_of (processImage (sample_env clock resp) f g)) = sample_config"
    and "var_r (state_of (processImage (sample_env clock resp) f g)) = var_r g"
proof -
  obtain g1 where s:
    "processImage_steps (sample_env clock resp) g = Inr (resp, g1)"
    "config g1 = config g" "var_r g1 = var_r g"
    using sample_pipeline [of "sample_env clock resp" clock resp g] assms by auto
  show "config (state_of (processImage (sample_env clock resp) f g)) = sample_config"
    by (simp add: processImage_def s loop_frame assms)
  show "var_r (state_of (processImage (sample_env clock resp) f g)) = var_r g"
    by (simp add: processImage_def s loop_frame)
qed

lemma sample_cycle_steps:
  assumes "config g = sample_config"
  shows "steps (state_of (processImage (sample_env clock [pkg80]) False g)) =
           steps g + (if Time_After (clock (steps g + 4)) (muteEnd g) then 8 else 5)"
proof -
  obtain g1 where s:
    "processImage_steps (sample_env clock [pkg80]) g = Inr ([pkg80], g1)"
    "config g1 = sample_config" "lastNotificationSent g1 = lastNotificationSent g"
    "steps g1 = steps g + 4"
    using sample_pipeline [of "sample_env clock [pkg80]" clock "[pkg80]" g] assms by auto
  show ?thesis
    by (simp add: processImage_def s processImage_body_def Let_def Now_def pkg80_matched
          notifyDetected_def emailResult_def sendWebHook_def assms)
qed

lemma example_times:
  "Time_After (at_minute 0) (Time_Add zeroTime (60 * Minute))"
  "\<not> Time_After (at_minute 30) (Time_Add (at_minute 0) (60 * Minute))"
  "Time_After (at_minute 61) (Time_Add (at_minute 0) (60 * Minute))"
  by (simp_all add: Time_After_def Time_Add_def at_minute_def zeroTime_def Minute_def)

lemma startup_like_sample:
  assumes "Image_cfg c = Image_cfg sample_config"
      and "AuthFile (Vision c) \<noteq> ''''" and "Vision_URL (Vision c) \<noteq> ''''"
      and "\<not> os_Stat_IsNotExist w ''./''"
  shows "main_startup w (initial_globals c) =
           processImage w (NotifyOnStart (Run c))
             ((initial_globals c)\<lparr>var_r := \<lparr>Min_X = 0, Min_Y = 0, Max_X = 600, Max_Y = 400\<rparr>\<rparr>)"
  using assms
  by (simp add: main_startup_def main_initialize_def imageCfg_initialize_def
        visionCfg_initialize_def emailCfg_initialize_def webhookCfg_initialize_def Let_def
        isCropSpecified_def image_Rect_def)
     (simp add: sample_config_def)

lemma long_mute_config_simps [simp]:
  "Image_cfg long_mute_config = Image_cfg sample_config"
  "Vision long_mute_config = Vision sample_config"
  "Email long_mute_config = Email sample_config"
  "WebHook long_mute_config = WebHook sample_config"
  "NotifyOnStart (Run long_mute_config) = False"
  "NotifyMuteMinutes (Run long_mute_config) = 153722868"
  by (simp_all add: long_mute_config_def)

lemma sample_vision [simp]:
  "AuthFile (Vision sample_config) \<noteq> ''''" "Vision_URL (Vision sample_config) \<noteq> ''''"
  by (simp_all add: sample_config_def)

lemma matched_Vision: "Vision c = Vision c' \<Longrightarrow> matched c p = matched c' p"
  by (simp add: matched_def)

lemma long_mute_times:
  "Time_After (at_minute 4) (Time_Add zeroTime (153722868 * Minute))"
  "Time_After (at_minute 12) (Time_Add (at_minute 5) (153722868 * Minute))"
  "\<not> instant (at_minute 5) + 153722868 * 60 * 1000000000 < instant (at_minute 12)"
  by (simp_all add: Time_After_def Time_Add_def at_minute_def zeroTime_def Minute_def)

text \<open>
  Claim C1, amended. Let the loop of \<open>processImage\<close> reach a matching result \<open>p\<close> in
  state \<open>g2\<close>: the four steps succeeded and the loop returned from every earlier result
  of the cycle. Let the mute minutes be at most 153722867 in absolute value, so that
  their nanoseconds fit the 64-bit \<open>Duration\<close>. The cycle is the loop up to and including
  \<open>p\<close>, then the rest of the loop. For \<open>p\<close> the loop calls the channels of a detection,
  one call for each enabled channel, if and only if the clock read at that moment is
  strictly after \<open>lastNotificationSent\<close> plus the mute minutes; when it does, it sets
  \<open>lastNotificationSent\<close> to the next reading of the clock, and otherwise leaves it.
  While \<open>lastNotificationSent\<close> is the zero Time, any clock reading from the Unix epoch on
  is after the window, so the first match notifies.
\<close>

theorem mute_window:
  assumes "processImage_steps w g = Inr (pre @ p # post, g1)"
      and "processImage_loop w forceNotify pre g1 = Returned g2"
      and "matched (config g) p"
      and "\<bar>NotifyMuteMinutes (Run (config g))\<bar> \<le> 153722867"
  shows "(let now = time_Now w (steps g2);
              m = NotifyMuteMinutes (Run (config g));
              after = (instant (lastNotificationSent g2) + m * 60 * 1000000000 < instant now);
              reached = processImage_loop w forceNotify (pre @ [p]) g1;
              g3 = state_of reached
          in processImage w forceNotify g =
               andThen reached (processImage_loop w forceNotify post) \<and>
             calls g3 = calls g2 @
               (if after then fanOut (config g) detectedEmail p (buf g2) else []) \<and>
             lastNotificationSent g3 =
               (if after then time_Now w (Suc (steps g2)) else lastNotificationSent g2) \<and>
             (lastNotificationSent g2 = zeroTime \<and> unixEpoch \<le> instant now \<longrightarrow> after))"
proof -
  note r = processImage_reach [OF assms(1,2)]
  let ?now = "time_Now w (steps g2)"
  let ?m = "NotifyMuteMinutes (Run (config g))"
  have b: "- 153722867 \<le> ?m" "?m \<le> 153722867" using assms(4) by simp_all
  have a: "Time_After ?now (muteEnd g2) =
             (instant (lastNotificationSent g2) + ?m * 60 * 1000000000 < instant ?now)"
    using muteDuration_exact [OF b]
    by (simp add: Time_After_def Time_Add_def mult.commute r(3))
  have m: "matched (config g2) p" using assms(3) r(3) by simp
  have z: "lastNotificationSent g2 = zeroTime \<and> unixEpoch \<le> instant ?now \<longrightarrow>
           Time_After ?now (muteEnd g2)"
    using zeroTime_mute_over [of g2 ?now] by simp
  show ?thesis
    unfolding Let_def a [symmetric]
    using r(1) m z by (simp add: r(2) processImage_body_calls processImage_body_last r(3))
qed

text \<open>
  The claim as stated fails in two ways. With a mute window of 153722868 minutes the
  product with \<^verbatim>\<open>time.Minute\<close> wraps around: the cycle at start-up notifies and sets
  \<open>lastNotificationSent\<close> to minute 5, and the next cycle, whose clock reads minute 12,
  notifies again, far inside the window. And a result that the loop does not reach is not
  notified: at the start of the sample configuration the web-hook of the restart notice
  for the first result panics, and the package after it, a match with
  \<open>lastNotificationSent\<close> still the zero Time, is never dispatched.
\<close>

theorem mute_window_counterexample:
  "matched long_mute_config pkg80 \<and>
   steps (state_of (main_startup (noon_env [pkg80]) (initial_globals long_mute_config))) = 8 \<and>
   lastNotificationSent
     (state_of (main_startup (noon_env [pkg80]) (initial_globals long_mute_config))) =
     at_minute 5 \<and>
   time_Now (noon_env [pkg80]) 12 = at_minute 12 \<and>
   \<not> instant (at_minute 5) + 153722868 * 60 * 1000000000 < instant (at_minute 12) \<and>
   calls (state_of (processImage (noon_env [pkg80]) False
            (state_of (main_startup (noon_env [pkg80]) (initial_globals long_mute_config))))) =
     [Call_getGoogleToken, Call_fetchImage,
      Call_cropImage \<lparr>Min_X = 0, Min_Y = 0, Max_X = 600, Max_Y = 400\<rparr>,
      Call_evaluateImageJSON ''ya29.token'',
      detectedEmail, Call_sendWebHook (Score pkg80) ''package'' [255, 216],
      Call_getGoogleToken, Call_fetchImage,
      Call_cropImage \<lparr>Min_X = 0, Min_Y = 0, Max_X = 600, Max_Y = 400\<rparr>,
      Call_evaluateImageJSON ''ya29.token'',
      detectedEmail, Call_sendWebHook (Score pkg80) ''package'' [255, 216]] \<and>
   matched sample_config pkg80 \<and>
   lastNotificationSent (initial_globals sample_config) = zeroTime \<and>
   calls (state_of (main_startup (env_channels_fail [porch, pkg80])
                      (initial_globals sample_config))) =
     [Call_getGoogleToken, Call_fetchImage,
      Call_cropImage \<lparr>Min_X = 0, Min_Y = 0, Max_X = 600, Max_Y = 400\<rparr>,
      Call_evaluateImageJSON ''ya29.token'',
      restartEmail, Call_sendWebHook (Score porch) ''porch'' [255, 216]] \<and>
   lastNotificationSent (state_of (main_startup (env_channels_fail [porch, pkg80])
                                     (initial_globals sample_config))) = zeroTime"
proof -
  let ?w = "noon_env [pkg80]"
  let ?R = "\<lparr>Min_X = 0, Min_Y = 0, Max_X = 600, Max_Y = 400\<rparr>"
  let ?G = "(initial_globals long_mute_config)\<lparr>var_r := ?R\<rparr>"
  let ?c1 = "state_of (processImage ?w False ?G)"
  have w: "?w = sample_env (\<lambda>n. at_minute (int n)) [pkg80]" by (simp add: noon_env_def)
  have m: "matched long_mute_config pkg80"
    using pkg80_matched matched_Vision [of long_mute_config sample_config pkg80] by simp
  have st: "main_startup ?w (initial_globals long_mute_config) = processImage ?w False ?G"
    using startup_like_sample [of long_mute_config ?w] by simp
  have G: "config ?G = long_mute_config" "steps ?G = 0" "lastNotificationSent ?G = zeroTime"
    "calls ?G = []" "var_r ?G = ?R"
    by (simp_all add: calls_def)
  obtain g1 where s1:
    "processImage_steps ?w ?G = Inr ([pkg80], g1)"
    "config g1 = long_mute_config" "buf g1 = [255, 216]" "var_r g1 = ?R"
    "lastNotificationSent g1 = zeroTime" "steps g1 = 4"
    "calls g1 = [Call_getGoogleToken, Call_fetchImage, Call_cropImage ?R,
                 Call_evaluateImageJSON ''ya29.token'']"
    using sample_pipeline [of ?w "\<lambda>n. at_minute (int n)" "[pkg80]" ?G] G
    by (auto simp: w)
  have c1: "steps ?c1 = 8" "lastNotificationSent ?c1 = at_minute 5"
    "config ?c1 = long_mute_config" "var_r ?c1 = ?R"
    "calls ?c1 = [Call_getGoogleToken, Call_fetchImage, Call_cropImage ?R,
                  Call_evaluateImageJSON ''ya29.token'',
                  detectedEmail, Call_sendWebHook (Score pkg80) ''package'' [255, 216]]"
    by (simp_all add: processImage_def s1 processImage_body_def Let_def Now_def m
          notifyDetected_def emailResult_def sendWebHook_def long_mute_times detectedEmail_def)
  obtain C1 where C1: "C1 = ?c1" by simp
  note d1 = c1 [folded C1]
  obtain g2 where s2:
    "processImage_steps ?w C1 = Inr ([pkg80], g2)"
    "config g2 = long_mute_config" "buf g2 = [255, 216]"
    "lastNotificationSent g2 = at_minute 5" "steps g2 = 12"
    "calls g2 = calls C1 @ [Call_getGoogleToken, Call_fetchImage, Call_cropImage ?R,
                            Call_evaluateImageJSON ''ya29.token'']"
    using sample_pipeline [of ?w "\<lambda>n. at_minute (int n)" "[pkg80]" C1] d1(1-4)
    by (auto simp: w)
  have c2: "calls (state_of (processImage ?w False C1)) =
              calls C1 @ [Call_getGoogleToken, Call_fetchImage, Call_cropImage ?R,
                           Call_evaluateImageJSON ''ya29.token'',
                           detectedEmail, Call_sendWebHook (Score pkg80) ''package'' [255, 216]]"
    by (simp add: processImage_def s2 processImage_body_def Let_def Now_def m
          notifyDetected_def emailResult_def sendWebHook_def long_mute_times detectedEmail_def)
  let ?v = "env_channels_fail [porch, pkg80]"
  have sv: "main_startup ?v (initial_globals sample_config) = processImage ?v True sample_globals"
    by (rule sample_startup) simp
  obtain h1 where u:
    "processImage_steps ?v sample_globals = Inr ([porch, pkg80], h1)"
    "config h1 = sample_config" "buf h1 = [255, 216]"
    "lastNotificationSent h1 = zeroTime" "steps h1 = 4"
    "calls h1 = [Call_getGoogleToken, Call_fetchImage, Call_cropImage ?R,
                 Call_evaluateImageJSON ''ya29.token'']"
    using sample_pipeline [of ?v _ "[porch, pkg80]" sample_globals] by auto
  have p: "calls (state_of (processImage ?v True sample_globals)) =
             [Call_getGoogleToken, Call_fetchImage, Call_cropImage ?R,
              Call_evaluateImageJSON ''ya29.token'',
              restartEmail, Call_sendWebHook (Score porch) ''porch'' [255, 216]]"
          "lastNotificationSent (state_of (processImage ?v True sample_globals)) = zeroTime"
    by (simp_all add: processImage_def u processImage_body_def Let_def porch_not_matched
          notifyForced_def emailResult_def sendWebHook_def restartEmail_def)
  show ?thesis
    unfolding st sv
    using m c1(1,2) c2 [unfolded d1(5)] p pkg80_matched long_mute_times(3)
    by (simp add: C1 [symmetric])
qed

text \<open>
  The three cycles of the example, with a mute window of 60 minutes: the package at noon
  notifies, the same result thirty minutes later does not, and sixty-one minutes after
  the first it notifies again.
\<close>

theorem mute_window_witness:
  "(let w = example_env [pkg80];
        c1 = state_of (processImage w False sample_globals);
        c2 = state_of (processImage w False c1);
        c3 = state_of (processImage w False c2);
        pipeline = [Call_getGoogleToken, Call_fetchImage,
                    Call_cropImage \<lparr>Min_X = 0, Min_Y = 0, Max_X = 600, Max_Y = 400\<rparr>,
                    Call_evaluateImageJSON ''ya29.token''];
        sent = [detectedEmail, Call_sendWebHook (Score pkg80) ''package'' [255, 216]]
    in time_Now w 4 = at_minute 0 \<and>
       calls c1 = pipeline @ sent \<and> lastNotificationSent c1 = at_minute 0 \<and>
       steps c1 = 8 \<and> time_Now w 12 = at_minute 30 \<and>
       calls c2 = calls c1 @ pipeline \<and> lastNotificationSent c2 = at_minute 0 \<and>
       steps c2 = 13 \<and> time_Now w 17 = at_minute 61 \<and>
       calls c3 = calls c2 @ pipeline @ sent \<and> lastNotificationSent c3 = at_minute 61)"
proof -
  let ?w = "example_env [pkg80]"
  let ?c1 = "state_of (processImage ?w False sample_globals)"
  let ?c2 = "state_of (processImage ?w False ?c1)"
  let ?c3 = "state_of (processImage ?w False ?c2)"
  let ?R = "\<lparr>Min_X = 0, Min_Y = 0, Max_X = 600, Max_Y = 400\<rparr>"
  let ?P = "[Call_getGoogleToken, Call_fetchImage, Call_cropImage ?R,
             Call_evaluateImageJSON ''ya29.token'']"
  let ?S = "[detectedEmail, Call_sendWebHook (Score pkg80) ''package'' [255, 216]]"
  have w: "?w = sample_env example_clock [pkg80]" by (simp add: example_env_def)
  have now: "time_Now ?w = example_clock" by (simp add: w)
  have m: "matched sample_config pkg80" by (rule pkg80_matched)
  have bound: "\<bar>NotifyMuteMinutes (Run sample_config)\<bar> \<le> 153722867" by simp
  obtain g1 where s1:
    "processImage_steps ?w sample_globals = Inr ([] @ pkg80 # [], g1)"
    "config g1 = sample_config" "buf g1 = [255, 216]"
    "lastNotificationSent g1 = zeroTime" "steps g1 = 4" "calls g1 = ?P"
    using sample_pipeline [of ?w example_clock "[pkg80]" sample_globals] by (auto simp: w)
  have r1: "processImage_loop ?w False [] g1 = Returned g1" by simp
  have m1: "matched (config sample_globals) pkg80" by (simp add: m)
  have b1: "\<bar>NotifyMuteMinutes (Run (config sample_globals))\<bar> \<le> 153722867" by simp
  note T1 = mute_window [OF s1(1) r1 m1 b1, unfolded Let_def]
  have e1: "?c1 = state_of (processImage_loop ?w False ([] @ [pkg80]) g1)"
    using T1 [THEN conjunct1] by (simp only: andThen_loop_Nil)
  have a1: "instant (lastNotificationSent g1) +
              NotifyMuteMinutes (Run (config sample_globals)) * 60 * 1000000000
            < instant (time_Now ?w (steps g1))"
    by (simp add: s1 now at_minute_def zeroTime_def)
  have k1: "calls ?c1 = ?P @ ?S" "lastNotificationSent ?c1 = at_minute 0"
    using T1 [THEN conjunct2, THEN conjunct1] T1 [THEN conjunct2, THEN conjunct2, THEN conjunct1]
      a1
    by (simp_all only: e1 [symmetric] if_True)
       (simp_all add: s1 fanOut_def now)
  have f1: "config ?c1 = sample_config" "var_r ?c1 = ?R"
    using sample_cycle_frame [of sample_globals example_clock "[pkg80]" False]
    by (simp_all add: w)
  have n1: "steps ?c1 = 8"
    using sample_cycle_steps [of sample_globals example_clock]
    by (simp add: w example_times)
  obtain g2 where s2:
    "processImage_steps ?w ?c1 = Inr ([] @ pkg80 # [], g2)"
    "config g2 = sample_config" "buf g2 = [255, 216]"
    "lastNotificationSent g2 = at_minute 0" "steps g2 = 12" "calls g2 = calls ?c1 @ ?P"
    using sample_pipeline [of ?w example_clock "[pkg80]" ?c1] f1 k1(2) n1 by (auto simp: w)
  have r2: "processImage_loop ?w False [] g2 = Returned g2" by simp
  have m2: "matched (config ?c1) pkg80" by (simp only: f1 m)
  have b2: "\<bar>NotifyMuteMinutes (Run (config ?c1))\<bar> \<le> 153722867" by (simp only: f1 bound)
  note T2 = mute_window [OF s2(1) r2 m2 b2, unfolded Let_def]
  have e2: "?c2 = state_of (processImage_loop ?w False ([] @ [pkg80]) g2)"
    using T2 [THEN conjunct1] by (simp only: andThen_loop_Nil)
  have a2: "\<not> instant (lastNotificationSent g2) +
              NotifyMuteMinutes (Run (config ?c1)) * 60 * 1000000000
            < instant (time_Now ?w (steps g2))"
    by (simp add: s2 now at_minute_def f1)
  have k2: "calls ?c2 = calls ?c1 @ ?P" "lastNotificationSent ?c2 = at_minute 0"
    using T2 [THEN conjunct2, THEN conjunct1] T2 [THEN conjunct2, THEN conjunct2, THEN conjunct1]
      a2
    by (simp_all only: e2 [symmetric] if_False)
       (simp_all add: s2)
  have f2: "config ?c2 = sample_config" "var_r ?c2 = ?R"
    using sample_cycle_frame [of ?c1 example_clock "[pkg80]" False] f1
    by (simp_all add: w)
  have n2: "steps ?c2 = 13"
    using sample_cycle_steps [of ?c1 example_clock] f1 n1 k1(2)
    by (simp add: w example_times)
  obtain g3 where s3:
    "processImage_steps ?w ?c2 = Inr ([] @ pkg80 # [], g3)"
    "config g3 = sample_config" "buf g3 = [255, 216]"
    "lastNotificationSent g3 = at_minute 0" "steps g3 = 17" "calls g3 = calls ?c2 @ ?P"
    using sample_pipeline [of ?w example_clock "[pkg80]" ?c2] f2 k2(2) n2 by (auto simp: w)
  have r3: "processImage_loop ?w False [] g3 = Returned g3" by simp
  have m3: "matched (config ?c2) pkg80" by (simp only: f2 m)
  have b3: "\<bar>NotifyMuteMinutes (Run (config ?c2))\<bar> \<le> 153722867" by (simp only: f2 bound)
  note T3 = mute_window [OF s3(1) r3 m3 b3, unfolded Let_def]
  have e3: "?c3 = state_of (processImage_loop ?w False ([] @ [pkg80]) g3)"
    using T3 [THEN conjunct1] by (simp only: andThen_loop_Nil)
  have a3: "instant (lastNotificationSent g3) +
              NotifyMuteMinutes (Run (config ?c2)) * 60 * 1000000000
            < instant (time_Now ?w (steps g3))"
    by (simp add: s3 now at_minute_def f2)
  have k3: "calls ?c3 = calls ?c2 @ ?P @ ?S" "lastNotificationSent ?c3 = at_minute 61"
    using T3 [THEN conjunct2, THEN conjunct1] T3 [THEN conjunct2, THEN conjunct2, THEN conjunct1]
      a3
    by (simp_all only: e3 [symmetric] if_True)
       (simp_all add: s3 fanOut_def now f2)
  show ?thesis
    unfolding Let_def
    using k1 n1 k2 n2 k3 by (simp add: now)
qed

section \<open>Notification decision: the exact product and the threshold\<close>

lemma round_half_even_lower: "x - 1 / 2 \<le> of_int (round_half_even x)"
proof -
  have "x < of_int \<lfloor>x\<rfloor> + 1" by linarith
  then show ?thesis
    by (auto simp: round_half_even_def Let_def)
qed

lemma float64_round_lower:
  assumes "pow2 (- 1022) \<le> x"
  shows "float64_round x = PosInf \<or>
         (\<exists>v. float64_round x = Finite v \<and> x * (1 - pow2 (- 53)) \<le> v)"
proof -
  have x0: "0 < x" using assms pow2_pos [of "- 1022"] by linarith
  have xn: "x \<noteq> 0" using x0 by simp
  have ax: "\<bar>x\<bar> = x" using x0 by simp
  define e where "e = ilog2 x"
  have b: "pow2 e \<le> x" "x < pow2 (e + 1)" using ilog2_bounds [OF x0] by (simp_all add: e_def)
  have "pow2 (- 1022) < pow2 (e + 1)" using assms b(2) by simp
  then have "- 1022 \<le> e" using pow2_less_exp [of "- 1022" "e + 1"] by simp
  then have m: "max (ilog2 \<bar>x\<bar>) (- 1022) = e" by (simp add: ax e_def)
  define n where "n = round_half_even (x / pow2 (e - 52))"
  define q where "q = pow2 (e - 52)"
  have qpos: "0 < q" unfolding q_def by (rule pow2_pos)
  have f: "float64_round x =
      (if 1023 < e \<or> (e = 1023 \<and> 9007199254740992 \<le> \<bar>n\<bar>) then PosInf
       else Finite (of_int n * q))"
    using x0 by (simp add: float64_round_unfold [OF xn m [symmetric] n_def] q_def)
  have "x / q - 1 / 2 \<le> of_int n"
    unfolding n_def q_def by (rule round_half_even_lower)
  then have "(x / q - 1 / 2) * q \<le> of_int n * q"
    using qpos by (simp only: mult_le_cancel_right_pos)
  then have 1: "x - q / 2 \<le> of_int n * q"
    using qpos by (simp add: algebra_simps)
  have "q = pow2 e * pow2 (- 52)" using pow2_add [of e "- 52"] by (simp add: q_def)
  also have "\<dots> \<le> x * pow2 (- 52)"
    using b(1) pow2_pos [of "- 52"] by (simp only: mult_le_cancel_right_pos)
  finally have "q / 2 \<le> x * pow2 (- 52) / 2" by simp
  also have "x * pow2 (- 52) / 2 = x * pow2 (- 53)" by (simp add: pow2_def)
  finally have "x * (1 - pow2 (- 53)) \<le> x - q / 2" by (simp add: algebra_simps)
  then have "x * (1 - pow2 (- 53)) \<le> of_int n * q" using 1 by linarith
  then show ?thesis by (simp add: f)
qed

lemma product_not_above:
  assumes "0 \<le> T" "T < 9007199254740992" "s * 100 \<le> of_int T"
  shows "\<not> float64_gt (float64_mul (Finite s) (Finite 100)) (Finite (of_int T))"
proof (cases "0 < s * 100")
  case True
  then obtain v where "float64_round (s * 100) = Finite v" "v \<le> of_int T"
    using float64_round_le_int [OF True assms(3,2)] by blast
  then show ?thesis by simp
next
  case False
  then have "s * 100 \<le> 0" by simp
  then have "float64_round (s * 100) = NegInf \<or>
             (\<exists>v. float64_round (s * 100) = Finite v \<and> v \<le> 0)"
    by (rule float64_round_nonpos)
  moreover have "(0::rat) \<le> of_int T" using assms(1) by simp
  ultimately show ?thesis by auto
qed

lemma product_above:
  assumes "0 \<le> T" "T < 128" "of_int T + pow2 (- 46) \<le> s * 100"
  shows "float64_gt (float64_mul (Finite s) (Finite 100)) (Finite (of_int T))"
proof -
  define M where "M = T * 70368744177664 + 1"
  have M: "0 < M" "M < 9007199254740992" using assms(1,2) by (simp_all add: M_def)
  have e: "of_int M * pow2 (- 46) = of_int T + pow2 (- 46)"
    by (simp add: M_def pow2_def algebra_simps)
  have "of_int M * pow2 (- 46) \<le> s * 100" using assms(3) by (simp only: e)
  then have "float64_round (s * 100) = PosInf \<or>
             (\<exists>v. float64_round (s * 100) = Finite v \<and> of_int M * pow2 (- 46) \<le> v)"
    using M by (rule float64_round_ge_grid)
  moreover have "of_int T < of_int T + pow2 (- 46)" using pow2_pos [of "- 46"] by simp
  ultimately show ?thesis by (auto simp: e)
qed

lemma hundredth_above: "pow2 (- 46) \<le> 1 / 100"
  by (simp add: pow2_def)

lemma decimal_product_above:
  assumes "0 \<le> T" "T < 128" "of_int T + 1 / 100 \<le> d * 100"
  shows "float64_gt (float64_mul (float64_round d) (Finite 100)) (Finite (of_int T))"
proof -
  have T: "(0::rat) \<le> of_int T" "(of_int T :: rat) \<le> 127" using assms(1,2) by simp_all
  have d: "1 / 10000 \<le> d" using assms(3) T(1) by simp
  have "pow2 (- 1022) \<le> pow2 (- 14)" by (rule pow2_mono) simp
  also have "pow2 (- 14) \<le> 1 / 10000" by (simp add: pow2_def)
  finally have "pow2 (- 1022) \<le> d" using d by simp
  then consider "float64_round d = PosInf"
    | v where "float64_round d = Finite v" "d * (1 - pow2 (- 53)) \<le> v"
    using float64_round_lower [of d] by blast
  then show ?thesis
  proof cases
    case 1
    then show ?thesis by simp
  next
    case 2
    have c: "pow2 (- 53) = 1 / 9007199254740992" "pow2 (- 46) = 1 / 70368744177664"
      by (simp_all add: pow2_def)
    have "(of_int T + 1 / 100) * (1 - pow2 (- 53)) \<le> d * 100 * (1 - pow2 (- 53))"
      using assms(3) by (intro mult_right_mono) (simp_all add: c)
    moreover have "d * 100 * (1 - pow2 (- 53)) \<le> v * 100" using 2(2) by simp
    moreover have "of_int T + pow2 (- 46) \<le> (of_int T + 1 / 100) * (1 - pow2 (- 53))"
      using T by (simp add: c algebra_simps)
    ultimately have "of_int T + pow2 (- 46) \<le> v * 100" by linarith
    then show ?thesis
      using product_above [OF assms(1,2), of v] by (simp add: 2(1))
  qed
qed

lemma threshold_config_simps [simp]:
  "Image_cfg threshold7_config = Image_cfg sample_config"
  "Email threshold7_config = Email sample_config"
  "WebHook threshold7_config = WebHook sample_config"
  "NotifyOnStart (Run threshold7_config) = False"
  "NotifyMuteMinutes (Run threshold7_config) = 60"
  "Threshold (Vision threshold7_config) = 7"
  "PackageLabel (Vision threshold7_config) = ''package''"
  "AuthFile (Vision threshold7_config) = AuthFile (Vision sample_config)"
  "Vision_URL (Vision threshold7_config) = Vision_URL (Vision sample_config)"
  "Image_cfg threshold80_config = Image_cfg sample_config"
  "Email threshold80_config = Email sample_config"
  "WebHook threshold80_config = WebHook sample_config"
  "NotifyOnStart (Run threshold80_config) = False"
  "NotifyMuteMinutes (Run threshold80_config) = 60"
  "Threshold (Vision threshold80_config) = 80"
  "PackageLabel (Vision threshold80_config) = ''package''"
  "AuthFile (Vision threshold80_config) = AuthFile (Vision sample_config)"
  "Vision_URL (Vision threshold80_config) = Vision_URL (Vision sample_config)"
  by (simp_all add: threshold7_config_def threshold80_config_def sample_config_def)

lemma pkg07_parsed: "float64_round (7 / 100) = Score pkg07"
  unfolding pkg07_def by code_simp

lemma pkg07_product:
  "float64_mul (Score pkg07) (Finite 100) = Finite (7881299347898369 / 1125899906842624)"
  unfolding pkg07_def by code_simp

lemma pkg07_matched: "matched threshold7_config pkg07"
  by (simp add: matched_def pkg07_product float64_of_int_exact)

lemma pkg80_at_80: "\<not> matched threshold80_config pkg80"
  by (simp add: matched_def pkg80_product float64_of_int_exact)

text \<open>
  Claim C5, amended. Let the loop of \<open>processImage\<close> reach a result \<open>p\<close> that has the
  package label and the finite score \<open>s\<close>, and let the threshold \<open>T\<close> be at least 0 and
  below \<open>2\<^sup>5\<^sup>3\<close>. The threshold converts to \<^verbatim>\<open>float64\<close> exactly, the product that the code
  compares is \<open>s * 100\<close> rounded to \<^verbatim>\<open>float64\<close>, and \<open>p\<close> matches if and only if that
  rounded product is greater than \<open>T\<close>. The calls of the loop for \<open>p\<close> are those of a
  detection, once the mute window is over, if \<open>p\<close> matches, and those of the forced
  notice otherwise. If the exact product \<open>s * 100\<close> is at most \<open>T\<close>, in particular if it
  equals \<open>T\<close>, then \<open>p\<close> does not match and no detection is dispatched. If \<open>T\<close> is below
  128 and the exact product is at least \<open>T + 2\<^sup>-\<^sup>4\<^sup>6\<close>, in particular \<open>T + 0.01\<close>, then \<open>p\<close>
  matches; so it does when \<open>s\<close> is the \<^verbatim>\<open>float64\<close> nearest to a decimal \<open>d\<close> of the
  response with \<open>d * 100\<close> at least \<open>T + 0.01\<close>.
\<close>

theorem threshold_strict:
  assumes "processImage_steps w g = Inr (pre @ p # post, g1)"
      and "processImage_loop w forceNotify pre g1 = Returned g2"
      and "DisplayName p = PackageLabel (Vision (config g))"
      and "Score p = Finite s"
      and "0 \<le> Threshold (Vision (config g))"
      and "Threshold (Vision (config g)) < 9007199254740992"
  shows "(let T = Threshold (Vision (config g));
              product = float64_mul (Score p) (Finite 100);
              reached = processImage_loop w forceNotify (pre @ [p]) g1;
              detected = (if Time_After (time_Now w (steps g2)) (muteEnd g2)
                          then fanOut (config g) detectedEmail p (buf g2) else []);
              forced = (if forceNotify then fanOut (config g) restartEmail p (buf g2) else [])
          in processImage w forceNotify g =
               andThen reached (processImage_loop w forceNotify post) \<and>
             float64_of_int T = Finite (of_int T) \<and>
             product = float64_round (s * 100) \<and>
             (matched (config g) p \<longleftrightarrow> float64_gt product (Finite (of_int T))) \<and>
             calls (state_of reached) =
               calls g2 @ (if matched (config g) p then detected else forced) \<and>
             (s * 100 \<le> of_int T \<longrightarrow>
                \<not> matched (config g) p \<and> calls (state_of reached) = calls g2 @ forced) \<and>
             (T < 128 \<and> of_int T + pow2 (- 46) \<le> s * 100 \<longrightarrow>
                matched (config g) p \<and> calls (state_of reached) = calls g2 @ detected) \<and>
             (T < 128 \<and> of_int T + 1 / 100 \<le> s * 100 \<longrightarrow> matched (config g) p) \<and>
             (\<forall>d. T < 128 \<and> Score p = float64_round d \<and> of_int T + 1 / 100 \<le> d * 100 \<longrightarrow>
                  matched (config g) p))"
proof -
  note r = processImage_reach [OF assms(1,2)]
  let ?T = "Threshold (Vision (config g))"
  let ?reached = "processImage_loop w forceNotify (pre @ [p]) g1"
  have t: "float64_of_int ?T = Finite (of_int ?T)"
    using assms(5,6) by (intro float64_of_int_exact) simp
  have pr: "float64_mul (Score p) (Finite 100) = float64_round (s * 100)"
    by (simp add: assms(4))
  have m: "matched (config g) p \<longleftrightarrow>
           float64_gt (float64_mul (Score p) (Finite 100)) (Finite (of_int ?T))"
    by (simp add: matched_def assms(3) t)
  have c: "calls (state_of ?reached) = calls g2 @
             (if matched (config g) p
              then (if Time_After (time_Now w (steps g2)) (muteEnd g2)
                    then fanOut (config g) detectedEmail p (buf g2) else [])
              else (if forceNotify then fanOut (config g) restartEmail p (buf g2) else []))"
    by (simp add: r(2) processImage_body_calls r(3))
  have lo: "s * 100 \<le> of_int ?T \<longrightarrow> \<not> matched (config g) p"
    using product_not_above [OF assms(5,6), of s] by (simp add: m assms(4))
  have hi: "?T < 128 \<and> of_int ?T + pow2 (- 46) \<le> s * 100 \<longrightarrow> matched (config g) p"
    using product_above [OF assms(5), of s] by (simp add: m assms(4))
  have hi2: "?T < 128 \<and> of_int ?T + 1 / 100 \<le> s * 100 \<longrightarrow> matched (config g) p"
    using hi hundredth_above by auto
  have dec: "\<forall>d. ?T < 128 \<and> Score p = float64_round d \<and> of_int ?T + 1 / 100 \<le> d * 100 \<longrightarrow>
                 matched (config g) p"
    using decimal_product_above [OF assms(5)] by (auto simp: m)
  show ?thesis
    unfolding Let_def
    using r(1) t pr m lo hi hi2 dec by (simp add: c)
qed

text \<open>
  The claim as stated fails in both directions. The decimal score 0.07 times 100 is the
  threshold 7, yet the \<^verbatim>\<open>float64\<close> nearest to 0.07 times 100 rounds above 7, and the
  cycle at start-up dispatches a detection. The \<^verbatim>\<open>float64\<close> nearest to 0.80 times 100
  exceeds 80, yet the product rounds to 80, and at threshold 80 nothing is dispatched.
\<close>

theorem threshold_counterexample:
  "Score pkg07 = float64_round (7 / 100) \<and>
   (7 / 100 :: rat) * 100 = of_int (Threshold (Vision threshold7_config)) \<and>
   calls (state_of (main_startup (noon_env [pkg07]) (initial_globals threshold7_config))) =
     [Call_getGoogleToken, Call_fetchImage,
      Call_cropImage \<lparr>Min_X = 0, Min_Y = 0, Max_X = 600, Max_Y = 400\<rparr>,
      Call_evaluateImageJSON ''ya29.token'',
      detectedEmail, Call_sendWebHook (Score pkg07) ''package'' [255, 216]] \<and>
   Score pkg80 = Finite (3602879701896397 / 4503599627370496) \<and>
   of_int (Threshold (Vision threshold80_config)) <
     (3602879701896397 / 4503599627370496 :: rat) * 100 \<and>
   calls (state_of (main_startup (noon_env [pkg80]) (initial_globals threshold80_config))) =
     [Call_getGoogleToken, Call_fetchImage,
      Call_cropImage \<lparr>Min_X = 0, Min_Y = 0, Max_X = 600, Max_Y = 400\<rparr>,
      Call_evaluateImageJSON ''ya29.token'']"
proof -
  let ?R = "\<lparr>Min_X = 0, Min_Y = 0, Max_X = 600, Max_Y = 400\<rparr>"
  let ?w = "noon_env [pkg07]"
  let ?G = "(initial_globals threshold7_config)\<lparr>var_r := ?R\<rparr>"
  let ?v = "noon_env [pkg80]"
  let ?H = "(initial_globals threshold80_config)\<lparr>var_r := ?R\<rparr>"
  have w: "?w = sample_env (\<lambda>n. at_minute (int n)) [pkg07]" by (simp add: noon_env_def)
  have v: "?v = sample_env (\<lambda>n. at_minute (int n)) [pkg80]" by (simp add: noon_env_def)
  have st: "main_startup ?w (initial_globals threshold7_config) = processImage ?w False ?G"
    using startup_like_sample [of threshold7_config ?w] by simp
  have su: "main_startup ?v (initial_globals threshold80_config) = processImage ?v False ?H"
    using startup_like_sample [of threshold80_config ?v] by simp
  have G: "config ?G = threshold7_config" "steps ?G = 0" "lastNotificationSent ?G = zeroTime"
    "calls ?G = []" "var_r ?G = ?R"
    by (simp_all add: calls_def)
  have H: "config ?H = threshold80_config" "steps ?H = 0" "lastNotificationSent ?H = zeroTime"
    "calls ?H = []" "var_r ?H = ?R"
    by (simp_all add: calls_def)
  obtain g1 where s1:
    "processImage_steps ?w ?G = Inr ([pkg07], g1)"
    "config g1 = threshold7_config" "buf g1 = [255, 216]"
    "lastNotificationSent g1 = zeroTime" "steps g1 = 4"
    "calls g1 = [Call_getGoogleToken, Call_fetchImage, Call_cropImage ?R,
                 Call_evaluateImageJSON ''ya29.token'']"
    using sample_pipeline [of ?w "\<lambda>n. at_minute (int n)" "[pkg07]" ?G] G
    by (auto simp: w)
  obtain h1 where s2:
    "processImage_steps ?v ?H = Inr ([pkg80], h1)"
    "config h1 = threshold80_config" "buf h1 = [255, 216]"
    "lastNotificationSent h1 = zeroTime" "steps h1 = 4"
    "calls h1 = [Call_getGoogleToken, Call_fetchImage, Call_cropImage ?R,
                 Call_evaluateImageJSON ''ya29.token'']"
    using sample_pipeline [of ?v "\<lambda>n. at_minute (int n)" "[pkg80]" ?H] H
    by (auto simp: v)
  have c1: "calls (state_of (processImage ?w False ?G)) =
              [Call_getGoogleToken, Call_fetchImage, Call_cropImage ?R,
               Call_evaluateImageJSON ''ya29.token'',
               detectedEmail, Call_sendWebHook (Score pkg07) ''package'' [255, 216]]"
    by (simp add: processImage_def s1 processImage_body_def Let_def Now_def pkg07_matched
          notifyDetected_def emailResult_def sendWebHook_def at_minute_4_after_mute
          detectedEmail_def)
  have c2: "calls (state_of (processImage ?v False ?H)) =
              [Call_getGoogleToken, Call_fetchImage, Call_cropImage ?R,
               Call_evaluateImageJSON ''ya29.token'']"
    by (simp add: processImage_def s2 processImage_body_def Let_def pkg80_at_80)
  have p80: "Score pkg80 = Finite (3602879701896397 / 4503599627370496)"
    by (simp add: pkg80_def)
  show ?thesis
    unfolding st su
    using c1 c2 p80 pkg07_parsed by simp
qed

text \<open>
  Two cycles of the sample configuration, threshold 75: the score 0.75, whose product is
  the threshold, dispatches nothing; the \<^verbatim>\<open>float64\<close> nearest to 0.7501 dispatches the
  detection.
\<close>

theorem threshold_strict_witness:
  "Score pkg75 = Finite (3 / 4) \<and>
   calls (state_of (processImage (noon_env [pkg75]) False sample_globals)) =
     [Call_getGoogleToken, Call_fetchImage,
      Call_cropImage \<lparr>Min_X = 0, Min_Y = 0, Max_X = 600, Max_Y = 400\<rparr>,
      Call_evaluateImageJSON ''ya29.token''] \<and>
   Score pkg7501 = float64_round (7501 / 10000) \<and>
   matched sample_config pkg7501 \<and>
   calls (state_of (processImage (noon_env [pkg7501]) False sample_globals)) =
     [Call_getGoogleToken, Call_fetchImage,
      Call_cropImage \<lparr>Min_X = 0, Min_Y = 0, Max_X = 600, Max_Y = 400\<rparr>,
      Call_evaluateImageJSON ''ya29.token'',
      detectedEmail, Call_sendWebHook (Score pkg7501) ''package'' [255, 216]]"
proof -
  let ?R = "\<lparr>Min_X = 0, Min_Y = 0, Max_X = 600, Max_Y = 400\<rparr>"
  let ?P = "[Call_getGoogleToken, Call_fetchImage, Call_cropImage ?R,
             Call_evaluateImageJSON ''ya29.token'']"
  let ?w = "noon_env [pkg75]"
  let ?v = "noon_env [pkg7501]"
  let ?g = "sample_globals"
  have w: "?w = sample_env (\<lambda>n. at_minute (int n)) [pkg75]" by (simp add: noon_env_def)
  have v: "?v = sample_env (\<lambda>n. at_minute (int n)) [pkg7501]" by (simp add: noon_env_def)
  obtain g1 where s1:
    "processImage_steps ?w ?g = Inr ([] @ pkg75 # [], g1)"
    "config g1 = sample_config" "buf g1 = [255, 216]"
    "lastNotificationSent g1 = zeroTime" "steps g1 = 4" "calls g1 = ?P"
    using sample_pipeline [of ?w "\<lambda>n. at_minute (int n)" "[pkg75]" ?g] by (auto simp: w)
  obtain h1 where s2:
    "processImage_steps ?v ?g = Inr ([] @ pkg7501 # [], h1)"
    "config h1 = sample_config" "buf h1 = [255, 216]"
    "lastNotificationSent h1 = zeroTime" "steps h1 = 4" "calls h1 = ?P"
    using sample_pipeline [of ?v "\<lambda>n. at_minute (int n)" "[pkg7501]" ?g] by (auto simp: v)
  have r1: "processImage_loop ?w False [] g1 = Returned g1" by simp
  have r2: "processImage_loop ?v False [] h1 = Returned h1" by simp
  have l1: "DisplayName pkg75 = PackageLabel (Vision (config ?g))" by simp
  have l2: "DisplayName pkg7501 = PackageLabel (Vision (config ?g))" by simp
  have x1: "Score pkg75 = Finite (3 / 4)" by (simp add: pkg75_def)
  have x2: "Score pkg7501 = Finite (3378150080490609 / 4503599627370496)"
    by (simp add: pkg7501_def)
  have b: "0 \<le> Threshold (Vision (config ?g))"
          "Threshold (Vision (config ?g)) < 9007199254740992" by simp_all
  note A = threshold_strict [OF s1(1) r1 l1 x1 b, unfolded Let_def]
  note B = threshold_strict [OF s2(1) r2 l2 x2 b, unfolded Let_def]
  note A_eq = A [THEN conjunct1]
  note A_lo = A [THEN conjunct2, THEN conjunct2, THEN conjunct2, THEN conjunct2,
                 THEN conjunct2, THEN conjunct1]
  note B_eq = B [THEN conjunct1]
  note B_hi = B [THEN conjunct2, THEN conjunct2, THEN conjunct2, THEN conjunct2,
                 THEN conjunct2, THEN conjunct2, THEN conjunct1]
  note B_dec = B [THEN conjunct2, THEN conjunct2, THEN conjunct2, THEN conjunct2,
                  THEN conjunct2, THEN conjunct2, THEN conjunct2, THEN conjunct2]
  have e1: "state_of (processImage ?w False ?g) =
            state_of (processImage_loop ?w False ([] @ [pkg75]) g1)"
    using A_eq by (simp only: andThen_loop_Nil)
  have e2: "state_of (processImage ?v False ?g) =
            state_of (processImage_loop ?v False ([] @ [pkg7501]) h1)"
    using B_eq by (simp only: andThen_loop_Nil)
  have k1: "calls (state_of (processImage ?w False ?g)) = ?P"
    using A_lo by (simp only: e1 [symmetric]) (simp add: s1)
  have p46: "of_int (Threshold (Vision (config ?g))) + pow2 (- 46)
             \<le> (3378150080490609 / 4503599627370496 :: rat) * 100"
    by (simp add: pow2_def)
  have k2: "calls (state_of (processImage ?v False ?g)) =
              ?P @ [detectedEmail, Call_sendWebHook (Score pkg7501) ''package'' [255, 216]]"
    using B_hi p46
    by (simp only: e2 [symmetric]) (simp add: s2 at_minute_4_after_mute fanOut_def)
  have k3: "matched sample_config pkg7501"
    using B_dec [rule_format, of "7501 / 10000"] pkg7501_parsed by simp
  show ?thesis
    using x1 k1 k2 k3 pkg7501_parsed by simp
qed

end
